theory Spec2Isabelle
  imports Complex_Main
begin

section \<open>Python values, calls and outcomes\<close>

text \<open>
  The callbacks of \<^verbatim>\<open>sqreen/rules.py\<close> handle untyped Python values. The fragment
  needed here: \<^verbatim>\<open>None\<close>, booleans, numbers, strings, lists and dictionaries with string
  keys. A dictionary nested in a value is an association list; the keyword arguments and
  the phase options of a call are maps.
\<close>

datatype pyval =
    PNone
  | PBool bool
  | PInt int
  | PFloat real
  | PStr string
  | PList "pyval list"
  | PDict "(string \<times> pyval) list"

fun truthy :: "pyval \<Rightarrow> bool" where
  "truthy PNone = False"
| "truthy (PBool b) = b"
| "truthy (PInt i) = (i \<noteq> 0)"
| "truthy (PFloat r) = (r \<noteq> 0)"
| "truthy (PStr s) = (s \<noteq> [])"
| "truthy (PList xs) = (xs \<noteq> [])"
| "truthy (PDict kvs) = (kvs \<noteq> [])"

text \<open>Python's \<^verbatim>\<open>a or b\<close>: the first operand when it is truthy, the second otherwise.\<close>

definition py_or :: "pyval \<Rightarrow> pyval \<Rightarrow> pyval" where
  "py_or a b = (if truthy a then a else b)"

text \<open>
  The exceptions that the modelled code raises or catches. \<^verbatim>\<open>UnsupportedAWSLambdaEvent\<close>
  carries the event. \<^verbatim>\<open>KeyboardInterrupt\<close> and \<^verbatim>\<open>SystemExit\<close> derive from
  \<^verbatim>\<open>BaseException\<close> only, so \<^verbatim>\<open>except Exception\<close> lets them through; the others are
  subclasses of \<^verbatim>\<open>Exception\<close>.
\<close>

datatype exn =
    AttributeError
  | TypeError
  | IndexError
  | NotImplementedError
  | UnsupportedAWSLambdaEvent "(string \<times> pyval) list"
  | OtherException string
  | KeyboardInterrupt
  | SystemExit

fun is_Exception :: "exn \<Rightarrow> bool" where
  "is_Exception KeyboardInterrupt = False"
| "is_Exception SystemExit = False"
| "is_Exception _ = True"

datatype lifecycle = Pre | Post | Failing

fun lifecycle_name :: "lifecycle \<Rightarrow> string" where
  "lifecycle_name Pre = ''pre''"
| "lifecycle_name Post = ''post''"
| "lifecycle_name Failing = ''failing''"

section \<open>Runner, request-scoped storage and callback\<close>

text \<open>The runner attributes that \<^verbatim>\<open>BaseCallback\<close> reads.\<close>

record runner =
  budget :: "real option"
  performance_metrics :: bool
  performance_metrics_settings_enabled :: bool

text \<open>A request as far as \<^verbatim>\<open>rules.py\<close> looks into it: \<^verbatim>\<open>raw_caller\<close>.\<close>

record request =
  raw_caller :: "string list"
  request_payload :: pyval

text \<open>What \<^verbatim>\<open>storage.observe(category, payload, ...)\<close> receives, by category.\<close>

record attack_payload =
  atk_infos :: pyval
  atk_rulespack_id :: string
  atk_rule_name :: string
  atk_beta :: pyval
  atk_block :: pyval
  atk_test :: pyval
  atk_attack_type :: pyval
  atk_time :: nat
  atk_backtrace :: "string list option"

record exception_payload =
  exc_message :: string
  exc_klass :: string
  exc_infos :: pyval
  exc_rule_name :: string
  exc_rulespack_id :: string
  exc_test :: pyval
  exc_time :: nat
  exc_backtrace :: "string list"

datatype observed =
    Attacks attack_payload "string list"
  | Observations string nat string pyval
  | SqreenExceptions exception_payload "string list"

datatype trace_event = TraceEnter string | TraceExit string

datatype log_record =
    LogRunning lifecycle string
  | LogNotRunning lifecycle string "bool option"
  | LogObservedAttack
  | LogObservedMetric
  | LogObservedException

text \<open>
  Everything the callbacks read and mutate: the request-scoped storage
  (\<^verbatim>\<open>callback.storage\<close>), the clock behind \<^verbatim>\<open>now()\<close>, the logger, the
  \<^verbatim>\<open>call_counts\<close> dictionaries of the callback objects and the module-level set
  \<^verbatim>\<open>UNSUPPORTED_LAMBDA_EVENTS\<close> of the AWS Lambda adapter.

  A callback object is known by its identity, a number; \<open>call_counts\<close> is the store that
  gives each object its own dictionary, so two callbacks never share a counter.

  Modelled from the spec: the module \<^verbatim>\<open>runtime_storage\<close> is absent. Its getters return the
  stored object and \<^verbatim>\<open>get_current_args(args)\<close> returns the positional arguments, possibly
  replaced by the ones the storage holds. The calls of \<^verbatim>\<open>storage.observe\<close> and of
  \<^verbatim>\<open>storage.trace\<close> are kept as they are made: \<open>observe_calls\<close> lists the arguments of
  every \<^verbatim>\<open>observe\<close> call in order, \<open>traces\<close> the entries and exits of the timed scopes.
  What the storage does with them is not part of the model.
\<close>

record state =
  current_request :: "request option"
  current_response :: pyval
  stored_args :: "pyval list option"
  request_store :: pyval
  whitelist_match :: pyval
  request_sq_time :: "real option"
  clock :: nat
  observe_calls :: "observed list"
  traces :: "trace_event list"
  debug_enabled :: bool
  logs :: "log_record list"
  call_counts :: "nat \<Rightarrow> lifecycle \<Rightarrow> int"
  UNSUPPORTED_LAMBDA_EVENTS :: "string set set"

definition get_current_args :: "state \<Rightarrow> pyval list \<Rightarrow> pyval list" where
  "get_current_args st as = (case stored_args st of None \<Rightarrow> as | Some xs \<Rightarrow> xs)"

definition now :: "state \<Rightarrow> nat" where
  "now st = clock st"

definition observe :: "observed \<Rightarrow> state \<Rightarrow> state" where
  "observe ev st = st\<lparr>observe_calls := observe_calls st @ [ev]\<rparr>"

text \<open>\<^verbatim>\<open>LOGGER.debug\<close> emits the record only when the debug level is enabled.\<close>

definition LOGGER_debug :: "log_record \<Rightarrow> state \<Rightarrow> state" where
  "LOGGER_debug msg st = (if debug_enabled st then st\<lparr>logs := logs st @ [msg]\<rparr> else st)"

text \<open>
  The arguments of a phase handler: \<^verbatim>\<open>(inst, args, kwargs, **options)\<close>. A handler returns
  a value or raises, and may change the state either way.
\<close>

record call =
  inst :: pyval
  args :: "pyval list"
  kwargs :: "string \<rightharpoonup> pyval"
  options :: "string \<rightharpoonup> pyval"

type_synonym handler = "call \<Rightarrow> state \<Rightarrow> (exn + pyval) \<times> state"

text \<open>The names a condition is evaluated against (\<^verbatim>\<open>binding_eval_args\<close>).\<close>

record bindings =
  b_request :: "request option"
  b_response :: pyval
  b_inst :: pyval
  b_args :: "pyval list"
  b_kwargs :: "string \<rightharpoonup> pyval"
  b_data :: pyval
  b_rv :: pyval
  b_request_store :: pyval

text \<open>
  Modelled from the spec: the module \<^verbatim>\<open>condition_evaluator\<close> is absent. A condition tree is
  given by the two things the engine asks of it: whether \<^verbatim>\<open>is_condition_empty\<close> holds, and
  the result of \<^verbatim>\<open>ConditionEvaluator(tree).evaluate(**bindings)\<close>, which is \<^verbatim>\<open>True\<close>,
  \<^verbatim>\<open>False\<close> or \<^verbatim>\<open>None\<close> and never an exception.
\<close>

datatype condition = Condition (tree_empty: bool) (evaluate: "bindings \<Rightarrow> bool option")

definition is_condition_empty :: "condition option \<Rightarrow> bool" where
  "is_condition_empty c = (case c of None \<Rightarrow> True | Some t \<Rightarrow> tree_empty t)"

text \<open>
  The attributes of a callback object that stay fixed after construction, with the
  identity of the object (\<^verbatim>\<open>self\<close>); its mutable \<^verbatim>\<open>call_counts\<close> are in the state, under
  that identity. The class constants \<^verbatim>\<open>SUPPORTS_BUDGET\<close> and \<^verbatim>\<open>INTERRUPTIBLE\<close> are
  fields, since subclasses override them.
\<close>

record callback =
  self_id :: nat
  SUPPORTS_BUDGET :: bool
  INTERRUPTIBLE :: bool
  rule_name :: string
  rulespack_id :: string
  cb_runner :: "runner option"
  data :: pyval
  beta :: pyval
  block :: pyval
  test :: pyval
  metrics :: pyval
  attack_type :: pyval
  payload_sections :: "string list"
  priority :: int
  conditions :: "lifecycle \<rightharpoonup> condition"
  call_count_interval :: int

definition SECTIONS :: "string list" where
  "SECTIONS = [''request'', ''response'', ''params'', ''headers'', ''context'']"

text \<open>
  \<^verbatim>\<open>BaseCallback.__init__\<close>. The object (\<^verbatim>\<open>self\<close>) and the two class constants come
  first; an absent keyword argument is \<^verbatim>\<open>None\<close>. The fields of \<^verbatim>\<open>RuleCallback\<close> are
  filled by its own constructor.
\<close>

definition BaseCallback_init ::
  "nat \<Rightarrow> bool \<Rightarrow> bool \<Rightarrow> string \<Rightarrow> string \<Rightarrow> runner option \<Rightarrow> pyval \<Rightarrow> pyval \<Rightarrow> pyval \<Rightarrow> pyval \<Rightarrow> pyval
     \<Rightarrow> string list option \<Rightarrow> int option \<Rightarrow> pyval \<Rightarrow> callback" where
  "BaseCallback_init self supports interruptible name pack rnr beta_arg block_arg test_arg
       data_arg metrics_arg sections_arg priority_arg attack_type_arg =
     \<lparr> self_id = self,
       SUPPORTS_BUDGET = supports,
       INTERRUPTIBLE = interruptible,
       rule_name = name,
       rulespack_id = pack,
       cb_runner = rnr,
       data = py_or data_arg (PDict []),
       beta = py_or beta_arg (PBool False),
       block = py_or block_arg (PBool False),
       test = py_or test_arg (PBool False),
       metrics = py_or metrics_arg (PList []),
       attack_type = attack_type_arg,
       payload_sections = (case sections_arg of None \<Rightarrow> SECTIONS | Some s \<Rightarrow> s),
       priority = (case priority_arg of Some p \<Rightarrow> p | None \<Rightarrow> 100),
       conditions = Map.empty,
       call_count_interval = 0 \<rparr>"

definition collaborative :: "callback \<Rightarrow> bool" where
  "collaborative cb = SUPPORTS_BUDGET cb"

definition skippable :: "callback \<Rightarrow> bool" where
  "skippable cb = INTERRUPTIBLE cb"

definition whitelisted :: "callback \<Rightarrow> state \<Rightarrow> pyval" where
  "whitelisted cb st = py_or (whitelist_match st) (PBool False)"

definition performance_monitoring_enabled :: "callback \<Rightarrow> bool" where
  "performance_monitoring_enabled cb =
     (case cb_runner cb of
        Some r \<Rightarrow> performance_metrics r \<and> performance_metrics_settings_enabled r
      | None \<Rightarrow> False)"

text \<open>
  \<^verbatim>\<open>get_remaining_budget\<close>. \<^verbatim>\<open>callback_kwargs.pop(key, None)\<close> mutates the dictionary, so
  the dictionary is returned with the result. Falling off the end returns \<^verbatim>\<open>None\<close>.
\<close>

definition override_key :: string where
  "override_key = ''__sqreen_override_budget''"

definition pop :: "(string \<rightharpoonup> pyval) \<Rightarrow> string \<Rightarrow> pyval \<times> (string \<rightharpoonup> pyval)" where
  "pop m k = ((case m k of None \<Rightarrow> PNone | Some v \<Rightarrow> v), m(k := None))"

definition budget_from_runner :: "callback \<Rightarrow> state \<Rightarrow> pyval" where
  "budget_from_runner cb st =
     (case cb_runner cb of
        None \<Rightarrow> PNone
      | Some r \<Rightarrow>
          if performance_monitoring_enabled cb then
            (case budget r of
               None \<Rightarrow> PNone
             | Some b \<Rightarrow> PFloat (b - (case request_sq_time st of None \<Rightarrow> 0 | Some t \<Rightarrow> t)))
          else PNone)"

definition get_remaining_budget ::
  "callback \<Rightarrow> state \<Rightarrow> (string \<rightharpoonup> pyval) option \<Rightarrow> pyval \<times> (string \<rightharpoonup> pyval) option" where
  "get_remaining_budget cb st callback_kwargs =
     (case callback_kwargs of
        None \<Rightarrow> (budget_from_runner cb st, None)
      | Some kw \<Rightarrow>
          (let (override_budget, kw') = pop kw override_key in
           if override_budget \<noteq> PNone then (override_budget, Some kw')
           else (budget_from_runner cb st, Some kw')))"

section \<open>Concrete objects used by the closed examples\<close>

definition runner0 :: runner where
  "runner0 = \<lparr> budget = Some 10, performance_metrics = True,
               performance_metrics_settings_enabled = True \<rparr>"

definition state0 :: state where
  "state0 = \<lparr> current_request = None, current_response = PNone, stored_args = None,
              request_store = PDict [], whitelist_match = PNone, request_sq_time = Some 3,
              clock = 7, observe_calls = [], traces = [], debug_enabled = True, logs = [],
              call_counts = (\<lambda>_ _. 0), UNSUPPORTED_LAMBDA_EVENTS = {} \<rparr>"

definition base0 :: "runner option \<Rightarrow> int option \<Rightarrow> callback" where
  "base0 rnr prio =
     BaseCallback_init 0 False True ''rule'' ''pack'' rnr PNone PNone PNone PNone PNone None prio
       PNone"

section \<open>Priority\<close>

text \<open>
  C10: a callback constructed without a priority (absent or \<^verbatim>\<open>None\<close>) has priority 100;
  a priority that is given, 0 included, is kept as it is.
\<close>

theorem priority_default:
  "priority (BaseCallback_init i sb it name pack rnr be bl te da me se None aty) = 100
   \<and> priority (BaseCallback_init i sb it name pack rnr be bl te da me se (Some p) aty) = p"
  by (simp add: BaseCallback_init_def)

theorem priority_default_witness:
  "priority (base0 None None) = 100 \<and> priority (base0 None (Some 0)) = 0"
  using priority_default [of 0 False True "''rule''" "''pack''" None PNone PNone PNone PNone PNone
      None PNone 0]
  by (simp add: base0_def)

section \<open>Computed properties\<close>

definition budget_cb :: callback where
  "budget_cb = BaseCallback_init 0 True False ''rule'' ''pack'' None PNone PNone PNone PNone PNone
     None None PNone"

text \<open>
  C6, as the spec states it: \<^verbatim>\<open>collaborative\<close> holds if and only if the callback declares
  budget support and the runner has performance monitoring enabled. It fails for a callback
  that declares budget support and has no runner: \<^verbatim>\<open>collaborative\<close> is true while
  performance monitoring is off.
\<close>

theorem collaborative_needs_monitoring_counterexample:
  "collaborative budget_cb
   \<and> \<not> (SUPPORTS_BUDGET budget_cb \<and> performance_monitoring_enabled budget_cb)"
  by (simp add: collaborative_def budget_cb_def BaseCallback_init_def
      performance_monitoring_enabled_def)

text \<open>
  C6, amended: \<^verbatim>\<open>collaborative\<close> is the callback's \<^verbatim>\<open>SUPPORTS_BUDGET\<close> constant, whatever
  the runner is; \<^verbatim>\<open>skippable\<close> is its \<^verbatim>\<open>INTERRUPTIBLE\<close> constant, so it is true if and only
  if the callback is not marked non-interruptible.
\<close>

theorem collaborative_skippable:
  "collaborative (BaseCallback_init i sb it name pack rnr be bl te da me se pr aty) = sb
   \<and> skippable (BaseCallback_init i sb it name pack rnr be bl te da me se pr aty) = it"
  by (simp add: collaborative_def skippable_def BaseCallback_init_def)

theorem collaborative_skippable_witness:
  "collaborative budget_cb \<and> \<not> skippable budget_cb"
  using collaborative_skippable [of 0 True False "''rule''" "''pack''" None PNone PNone PNone PNone
      PNone None None PNone]
  by (simp add: budget_cb_def)

section \<open>Remaining budget\<close>

definition elapsed :: "state \<Rightarrow> real" where
  "elapsed st = (case request_sq_time st of None \<Rightarrow> 0 | Some t \<Rightarrow> t)"

definition no_override :: "(string \<rightharpoonup> pyval) option \<Rightarrow> bool" where
  "no_override ckw =
     (case ckw of
        None \<Rightarrow> True
      | Some kw \<Rightarrow> kw override_key = None \<or> kw override_key = Some PNone)"

lemma budget_from_runner_enabled:
  "cb_runner cb = Some r \<Longrightarrow> performance_monitoring_enabled cb \<Longrightarrow> budget r = Some b
   \<Longrightarrow> budget_from_runner cb st = PFloat (b - elapsed st)"
  by (simp add: budget_from_runner_def elapsed_def)

lemma budget_from_runner_disabled:
  "\<not> performance_monitoring_enabled cb \<Longrightarrow> budget_from_runner cb st = PNone"
  by (simp add: budget_from_runner_def split: option.splits)

lemma budget_from_runner_unset:
  "cb_runner cb = Some r \<Longrightarrow> budget r = None \<Longrightarrow> budget_from_runner cb st = PNone"
  by (simp add: budget_from_runner_def)

lemma get_remaining_budget_no_override:
  "no_override ckw \<Longrightarrow>
   get_remaining_budget cb st ckw =
     (budget_from_runner cb st, map_option (\<lambda>kw. kw(override_key := None)) ckw)"
  by (auto simp: no_override_def get_remaining_budget_def pop_def split: option.splits)

definition monitored_cb :: callback where
  "monitored_cb = base0 (Some runner0) None"

definition unmonitored_cb :: callback where
  "unmonitored_cb = base0 (Some (runner0\<lparr>performance_metrics := False\<rparr>)) None"

text \<open>
  C4, as the spec states it: with a request budget \<open>B\<close> configured and \<open>E\<close> elapsed the
  result is \<open>B - E\<close>. It fails when the runner's performance monitoring is off: the budget
  10 is configured, 3 has elapsed, and the result is \<^verbatim>\<open>None\<close>.
\<close>

theorem remaining_budget_monitoring_off_counterexample:
  "map_option budget (cb_runner unmonitored_cb) = Some (Some 10)
   \<and> request_sq_time state0 = Some 3
   \<and> fst (get_remaining_budget unmonitored_cb state0 None) = PNone
   \<and> fst (get_remaining_budget unmonitored_cb state0 None) \<noteq> PFloat (10 - 3)"
  by (simp add: unmonitored_cb_def base0_def BaseCallback_init_def runner0_def state0_def
      get_remaining_budget_def budget_from_runner_def performance_monitoring_enabled_def)

text \<open>
  C4, amended. An override value other than \<^verbatim>\<open>None\<close> under the override key of the call's
  options is returned and the key is removed, whatever the budget. Without such a value:
  when the callback has a runner whose performance monitoring is enabled and whose budget
  is \<open>B\<close>, the result is \<open>B - E\<close>, where \<open>E\<close> is the time spent on the request (0 when
  none is recorded); when there is no runner, performance monitoring is off or no budget
  is set, the result is \<^verbatim>\<open>None\<close>. The key is removed from the options in each case.
\<close>

theorem get_remaining_budget_cases:
  "(kw override_key = Some v \<and> v \<noteq> PNone \<longrightarrow>
      get_remaining_budget cb st (Some kw) = (v, Some (kw(override_key := None))))
   \<and> (no_override ckw \<and> cb_runner cb = Some r \<and> performance_monitoring_enabled cb
        \<and> budget r = Some b \<longrightarrow>
      get_remaining_budget cb st ckw =
        (PFloat (b - elapsed st), map_option (\<lambda>kw. kw(override_key := None)) ckw))
   \<and> (no_override ckw \<and> (cb_runner cb = None \<or> \<not> performance_monitoring_enabled cb
        \<or> map_option budget (cb_runner cb) = Some None) \<longrightarrow>
      get_remaining_budget cb st ckw =
        (PNone, map_option (\<lambda>kw. kw(override_key := None)) ckw))"
proof (intro conjI impI)
  assume "kw override_key = Some v \<and> v \<noteq> PNone"
  then show "get_remaining_budget cb st (Some kw) = (v, Some (kw(override_key := None)))"
    by (simp add: get_remaining_budget_def pop_def)
next
  assume a: "no_override ckw \<and> cb_runner cb = Some r \<and> performance_monitoring_enabled cb
    \<and> budget r = Some b"
  then have "budget_from_runner cb st = PFloat (b - elapsed st)"
    by (simp add: budget_from_runner_enabled)
  with a show "get_remaining_budget cb st ckw =
      (PFloat (b - elapsed st), map_option (\<lambda>kw. kw(override_key := None)) ckw)"
    by (simp add: get_remaining_budget_no_override)
next
  assume a: "no_override ckw \<and> (cb_runner cb = None \<or> \<not> performance_monitoring_enabled cb
    \<or> map_option budget (cb_runner cb) = Some None)"
  then have "budget_from_runner cb st = PNone"
    by (auto simp: budget_from_runner_disabled budget_from_runner_unset
        performance_monitoring_enabled_def)
  with a show "get_remaining_budget cb st ckw =
      (PNone, map_option (\<lambda>kw. kw(override_key := None)) ckw)"
    by (simp add: get_remaining_budget_no_override)
qed

theorem get_remaining_budget_cases_witness:
  "get_remaining_budget monitored_cb state0 (Some [override_key \<mapsto> PInt 5]) =
     (PInt 5, Some Map.empty)
   \<and> get_remaining_budget monitored_cb state0 None = (PFloat 7, None)
   \<and> get_remaining_budget unmonitored_cb state0 (Some Map.empty) = (PNone, Some Map.empty)"
proof -
  have mon: "cb_runner monitored_cb = Some runner0"
    "performance_monitoring_enabled monitored_cb" "budget runner0 = Some 10"
    by (simp_all add: monitored_cb_def base0_def BaseCallback_init_def runner0_def
        performance_monitoring_enabled_def)
  have unmon: "\<not> performance_monitoring_enabled unmonitored_cb"
    by (simp add: unmonitored_cb_def base0_def BaseCallback_init_def runner0_def
        performance_monitoring_enabled_def)
  have el: "elapsed state0 = 3"
    by (simp add: elapsed_def state0_def)
  have no: "no_override None" "no_override (Some Map.empty)"
    by (simp_all add: no_override_def)
  note thm1 = get_remaining_budget_cases [of "[override_key \<mapsto> PInt 5]" "PInt 5" monitored_cb
      state0 None runner0 10]
  note thm2 = get_remaining_budget_cases [of Map.empty PNone unmonitored_cb state0
      "Some Map.empty" runner0 10]
  from thm1 mon no el have
    "get_remaining_budget monitored_cb state0 (Some [override_key \<mapsto> PInt 5]) =
       (PInt 5, Some Map.empty)"
    "get_remaining_budget monitored_cb state0 None = (PFloat 7, None)"
    by simp_all
  moreover from thm2 unmon no have
    "get_remaining_budget unmonitored_cb state0 (Some Map.empty) = (PNone, Some Map.empty)"
    by simp
  ultimately show ?thesis by simp
qed

section \<open>Recording events\<close>

text \<open>\<^verbatim>\<open>record_attack\<close>: the payload, with the backtrace when the section is enabled.\<close>

definition record_attack :: "callback \<Rightarrow> pyval \<Rightarrow> nat option \<Rightarrow> state \<Rightarrow> state" where
  "record_attack cb infos ts st =
     (let at' = (case ts of None \<Rightarrow> now st | Some t \<Rightarrow> t);
          payload = \<lparr> atk_infos = infos,
                      atk_rulespack_id = rulespack_id cb,
                      atk_rule_name = rule_name cb,
                      atk_beta = beta cb,
                      atk_block = block cb,
                      atk_test = test cb,
                      atk_attack_type = attack_type cb,
                      atk_time = at',
                      atk_backtrace =
                        (if ''context'' \<in> set (payload_sections cb) then
                           (case current_request st of
                              Some r \<Rightarrow> Some (raw_caller r)
                            | None \<Rightarrow> None)
                         else None) \<rparr>
      in observe (Attacks payload (payload_sections cb)) (LOGGER_debug LogObservedAttack st))"

definition record_observation ::
  "callback \<Rightarrow> string \<Rightarrow> string \<Rightarrow> pyval \<Rightarrow> nat option \<Rightarrow> state \<Rightarrow> state" where
  "record_observation cb metric_name key val ts st =
     (let at' = (case ts of None \<Rightarrow> now st | Some t \<Rightarrow> t)
      in observe (Observations metric_name at' key val) (LOGGER_debug LogObservedMetric st))"

text \<open>
  The exception object handed to \<^verbatim>\<open>record_exception\<close>, as far as the function uses it:
  the attribute \<^verbatim>\<open>exception_infos\<close> is missing, or calling it raises, or it returns a value.
\<close>

datatype infos_lookup = NoSuchAttribute | CallRaises exn | CallReturns pyval

text \<open>
  \<^verbatim>\<open>exc_info\<close> is a tuple of objects. An object is \<^verbatim>\<open>None\<close> or is given by what the
  function asks of it: its \<^verbatim>\<open>__name__\<close> attribute when it has one, the outcome of
  \<^verbatim>\<open>str()\<close> on it, and the frames it holds when it is a traceback.
\<close>

datatype obj =
    ONone
  | OObject (obj_name: "string option") (obj_str: "exn + string") (obj_frames: "string list")

fun dunder_name :: "obj \<Rightarrow> exn + string" where
  "dunder_name (OObject (Some n) _ _) = Inr n"
| "dunder_name _ = Inl AttributeError"

fun py_str :: "obj \<Rightarrow> exn + string" where
  "py_str ONone = Inr ''None''"
| "py_str (OObject _ r _) = r"

text \<open>Indexing a tuple: \<^verbatim>\<open>IndexError\<close> past its end.\<close>

definition index :: "'a list \<Rightarrow> nat \<Rightarrow> exn + 'a" where
  "index xs n = (if n < length xs then Inr (xs ! n) else Inl IndexError)"

text \<open>
  The module \<^verbatim>\<open>remote_exception\<close> is not part of the sources: its two formatters are
  parameters, each returning the formatted frames or raising.
\<close>

record remote_exception =
  raw_traceback_formatter :: "obj \<Rightarrow> exn + string list"
  traceback_formatter :: "string list \<Rightarrow> exn + string list"

text \<open>
  \<^verbatim>\<open>infos.update(other)\<close>: the keys of \<open>other\<close> replace those of \<open>infos\<close>. A target without
  \<^verbatim>\<open>update\<close> gives \<^verbatim>\<open>AttributeError\<close>, an argument that is no dictionary \<^verbatim>\<open>TypeError\<close>
  (updating from an iterable of pairs is left out).
\<close>

fun dict_update :: "pyval \<Rightarrow> pyval \<Rightarrow> exn + pyval" where
  "dict_update (PDict kvs) (PDict new) =
     Inr (PDict (filter (\<lambda>kv. fst kv \<notin> set (map fst new)) kvs @ new))"
| "dict_update (PDict kvs) _ = Inl TypeError"
| "dict_update _ _ = Inl AttributeError"

text \<open>The body of the \<^verbatim>\<open>try\<close> block: \<^verbatim>\<open>infos.update(exc.exception_infos())\<close>.\<close>

definition update_from_exception :: "pyval \<Rightarrow> infos_lookup \<Rightarrow> exn + pyval" where
  "update_from_exception infos exc =
     (case exc of
        NoSuchAttribute \<Rightarrow> Inl AttributeError
      | CallRaises e \<Rightarrow> Inl e
      | CallReturns v \<Rightarrow> dict_update infos v)"

text \<open>
  \<^verbatim>\<open>record_exception\<close>, statement by statement. \<^verbatim>\<open>except Exception: pass\<close> swallows the
  subclasses of \<^verbatim>\<open>Exception\<close> and leaves \<open>infos\<close> as it was. The statements after the
  \<^verbatim>\<open>try\<close> are not protected: \<^verbatim>\<open>exc_info[2]\<close>, the formatters, \<^verbatim>\<open>str(exc_info[1])\<close> and
  \<^verbatim>\<open>exc_info[0].__name__\<close> raise to the caller. The result is the error that escapes,
  or the new state.
\<close>

definition record_exception ::
  "remote_exception \<Rightarrow> callback \<Rightarrow> infos_lookup \<Rightarrow> obj list \<Rightarrow> string list option \<Rightarrow> pyval
     \<Rightarrow> nat option \<Rightarrow> state \<Rightarrow> exn + state" where
  "record_exception m cb exc exc_info stack infos ts st =
     (let infos1 = (if infos = PNone then PDict [] else infos);
          at' = (case ts of None \<Rightarrow> now st | Some t \<Rightarrow> t)
      in case (case update_from_exception infos1 exc of
                 Inr updated \<Rightarrow> Inr updated
               | Inl e \<Rightarrow> if is_Exception e then Inr infos1 else Inl e) of
           Inl e \<Rightarrow> Inl e
         | Inr infos2 \<Rightarrow>
        (case index exc_info 2 of Inl e \<Rightarrow> Inl e | Inr tb \<Rightarrow>
        (case raw_traceback_formatter m tb of Inl e \<Rightarrow> Inl e | Inr bt \<Rightarrow>
        (case (case stack of
                 None \<Rightarrow> Inr bt
               | Some frames \<Rightarrow>
                   (case traceback_formatter m frames of
                      Inl e \<Rightarrow> Inl e
                    | Inr formatted \<Rightarrow> Inr (formatted @ bt))) of
           Inl e \<Rightarrow> Inl e
         | Inr bt' \<Rightarrow>
        (case index exc_info 1 of Inl e \<Rightarrow> Inl e | Inr val \<Rightarrow>
        (case py_str val of Inl e \<Rightarrow> Inl e | Inr message \<Rightarrow>
        (case index exc_info 0 of Inl e \<Rightarrow> Inl e | Inr cls \<Rightarrow>
        (case dunder_name cls of Inl e \<Rightarrow> Inl e | Inr klass_name \<Rightarrow>
           Inr (observe
                  (SqreenExceptions
                     \<lparr> exc_message = message,
                       exc_klass = klass_name,
                       exc_infos = infos2,
                       exc_rule_name = rule_name cb,
                       exc_rulespack_id = rulespack_id cb,
                       exc_test = test cb,
                       exc_time = at',
                       exc_backtrace = bt' \<rparr>
                     (payload_sections cb))
                  (LOGGER_debug LogObservedException st))))))))))"

section \<open>The wrappers\<close>

text \<open>
  \<^verbatim>\<open>check_condition_wrapper\<close>. The dictionary \<^verbatim>\<open>binding_eval_args\<close> that the wrapper
  builds is a function of its own; \<^verbatim>\<open>condition_result in (False, None)\<close> is the test of
  the two results.
\<close>

definition binding_eval_args :: "callback \<Rightarrow> lifecycle \<Rightarrow> call \<Rightarrow> state \<Rightarrow> bindings" where
  "binding_eval_args cb lc c st =
     (let rv = (case options c (if lc = Post then ''result'' else ''exc_info'') of
                  None \<Rightarrow> PNone | Some v \<Rightarrow> v)
      in \<lparr> b_request = current_request st,
           b_response = current_response st,
           b_inst = inst c,
           b_args = get_current_args st (args c),
           b_kwargs = kwargs c,
           b_data = data cb,
           b_rv = rv,
           b_request_store = request_store st \<rparr>)"

definition check_condition_wrapper ::
  "handler \<Rightarrow> callback \<Rightarrow> condition \<Rightarrow> lifecycle \<Rightarrow> handler" where
  "check_condition_wrapper wrapped cb cond lc = (\<lambda>c st.
     let condition_result = evaluate cond (binding_eval_args cb lc c st)
     in if condition_result = Some False \<or> condition_result = None then
          (Inr PNone, LOGGER_debug (LogNotRunning lc (rule_name cb) condition_result) st)
        else wrapped c st)"

text \<open>
  \<^verbatim>\<open>call_count_wrapper\<close>. \<open>count_call\<close> is what the wrapper does to
  \<^verbatim>\<open>callback.call_counts\<close>, the dictionary of this callback object, before it calls the
  wrapped handler.
\<close>

definition count_call :: "callback \<Rightarrow> lifecycle \<Rightarrow> string \<Rightarrow> state \<Rightarrow> state" where
  "count_call cb lc observation_key st =
     (let current_count = call_counts st (self_id cb) lc in
      if current_count + 1 = call_count_interval cb then
        (let st1 = record_observation cb ''sqreen_call_counts'' observation_key
                     (PInt (call_count_interval cb)) None st
         in st1\<lparr>call_counts :=
                 (call_counts st1)(self_id cb := (call_counts st1 (self_id cb))(lc := 0))\<rparr>)
      else st\<lparr>call_counts :=
                (call_counts st)(self_id cb :=
                   (call_counts st (self_id cb))(lc := call_counts st (self_id cb) lc + 1))\<rparr>)"

definition call_count_wrapper ::
  "handler \<Rightarrow> callback \<Rightarrow> lifecycle \<Rightarrow> string \<Rightarrow> handler" where
  "call_count_wrapper wrapped cb lc observation_key = (\<lambda>c st.
     wrapped c (count_call cb lc observation_key st))"

text \<open>
  \<^verbatim>\<open>perf_monitoring_wrapper\<close>: \<^verbatim>\<open>with storage.trace(name): return wrapped(...)\<close>. The
  \<^verbatim>\<open>with\<close> statement leaves the scope when the body returns and when it raises, and the
  exception goes on.
\<close>

definition trace_enter :: "string \<Rightarrow> state \<Rightarrow> state" where
  "trace_enter name st = st\<lparr>traces := traces st @ [TraceEnter name]\<rparr>"

definition trace_exit :: "string \<Rightarrow> state \<Rightarrow> state" where
  "trace_exit name st = st\<lparr>traces := traces st @ [TraceExit name]\<rparr>"

definition perf_monitoring_wrapper :: "handler \<Rightarrow> string \<Rightarrow> handler" where
  "perf_monitoring_wrapper wrapped name = (\<lambda>c st.
     case wrapped c (trace_enter name st) of
       (Inr v, st') \<Rightarrow> (Inr v, trace_exit name st')
     | (Inl e, st') \<Rightarrow> (Inl e, trace_exit name st'))"

definition debug_log_wrapper :: "handler \<Rightarrow> lifecycle \<Rightarrow> callback \<Rightarrow> handler" where
  "debug_log_wrapper wrapped lc cb = (\<lambda>c st.
     wrapped c (LOGGER_debug (LogRunning lc (rule_name cb)) st))"

section \<open>Construction of a rule callback\<close>

text \<open>
  The lifecycle attributes of the object: \<^verbatim>\<open>getattr(self, lifecycle, None)\<close> reads the
  table, \<^verbatim>\<open>setattr\<close> updates it. Each \<^verbatim>\<open>_apply_\<close> method loops over the given names.
\<close>

type_synonym methods = "lifecycle \<rightharpoonup> handler"

definition apply_debug_log :: "bool \<Rightarrow> callback \<Rightarrow> lifecycle list \<Rightarrow> methods \<Rightarrow> methods" where
  "apply_debug_log is_enabled_for_debug cb ms tbl =
     (if \<not> is_enabled_for_debug then tbl
      else fold (\<lambda>lc t.
             case t lc of
               Some lifecycle_method \<Rightarrow> t(lc \<mapsto> debug_log_wrapper lifecycle_method lc cb)
             | None \<Rightarrow> t) ms tbl)"

definition apply_conditions :: "callback \<Rightarrow> lifecycle list \<Rightarrow> methods \<Rightarrow> methods" where
  "apply_conditions cb ms tbl =
     fold (\<lambda>lc t.
       case t lc of
         Some lifecycle_method \<Rightarrow>
           (case conditions cb lc of
              Some tree \<Rightarrow>
                if \<not> is_condition_empty (Some tree)
                then t(lc \<mapsto> check_condition_wrapper lifecycle_method cb tree lc)
                else t
            | None \<Rightarrow> t)
       | None \<Rightarrow> t) ms tbl"

definition observation_key_of :: "callback \<Rightarrow> lifecycle \<Rightarrow> string" where
  "observation_key_of cb lc = rulespack_id cb @ ''/'' @ rule_name cb @ ''/'' @ lifecycle_name lc"

definition apply_call_count :: "callback \<Rightarrow> lifecycle list \<Rightarrow> methods \<Rightarrow> methods" where
  "apply_call_count cb ms tbl =
     (if call_count_interval cb = 0 then tbl
      else fold (\<lambda>lc t.
             case t lc of
               Some lifecycle_method \<Rightarrow>
                 t(lc \<mapsto> call_count_wrapper lifecycle_method cb lc (observation_key_of cb lc))
             | None \<Rightarrow> t) ms tbl)"

definition metric_name_of :: "callback \<Rightarrow> lifecycle \<Rightarrow> string" where
  "metric_name_of cb lc = ''sq.'' @ rule_name cb @ ''.'' @ lifecycle_name lc"

definition apply_perf_monitoring :: "callback \<Rightarrow> lifecycle list \<Rightarrow> methods \<Rightarrow> methods" where
  "apply_perf_monitoring cb ms tbl =
     (if \<not> performance_monitoring_enabled cb then tbl
      else fold (\<lambda>lc t.
             case t lc of
               Some lifecycle_method \<Rightarrow>
                 t(lc \<mapsto> perf_monitoring_wrapper lifecycle_method (metric_name_of cb lc))
             | None \<Rightarrow> t) ms tbl)"

definition lifecycle_methods :: "methods \<Rightarrow> lifecycle list" where
  "lifecycle_methods tbl = filter (\<lambda>lc. tbl lc \<noteq> None) [Pre, Post, Failing]"

text \<open>
  A concrete callback class: its two constants and the phases it implements, each a
  method of the object. The keyword arguments of the constructor are a record
  (\<^verbatim>\<open>None\<close> when absent); the hookpoint attributes, which no method reads, are left out.
\<close>

record klass =
  k_SUPPORTS_BUDGET :: bool
  k_INTERRUPTIBLE :: bool
  k_methods :: "lifecycle \<rightharpoonup> (callback \<Rightarrow> handler)"

record rule_args =
  a_rule_name :: string
  a_rulespack_id :: string
  a_beta :: pyval
  a_block :: pyval
  a_test :: pyval
  a_data :: pyval
  a_conditions :: "(lifecycle \<rightharpoonup> condition) option"
  a_call_count_interval :: "int option"
  a_metrics :: pyval
  a_payload_sections :: "string list option"
  a_priority :: "int option"
  a_attack_type :: pyval

text \<open>
  \<^verbatim>\<open>RuleCallback.__init__\<close> on the object \<open>i\<close>: the base constructor, the conditions and
  the interval, the object's \<^verbatim>\<open>call_counts\<close> set to zero for the three phases, then the
  four \<^verbatim>\<open>_apply_\<close> calls in the order of the source. \<^verbatim>\<open>LOGGER.isEnabledFor(DEBUG)\<close> is
  read from the state at construction. The result is the object's attributes, its
  lifecycle methods and the state after construction.
\<close>

definition RuleCallback_init ::
  "nat \<Rightarrow> klass \<Rightarrow> runner option \<Rightarrow> rule_args \<Rightarrow> state \<Rightarrow> callback \<times> methods \<times> state" where
  "RuleCallback_init i k rnr ra st =
     (let base = BaseCallback_init i (k_SUPPORTS_BUDGET k) (k_INTERRUPTIBLE k) (a_rule_name ra)
                   (a_rulespack_id ra) rnr (a_beta ra) (a_block ra) (a_test ra) (a_data ra)
                   (a_metrics ra) (a_payload_sections ra) (a_priority ra) (a_attack_type ra);
          self = base\<lparr> conditions := (case a_conditions ra of None \<Rightarrow> Map.empty | Some cs \<Rightarrow> cs),
                      call_count_interval :=
                        (case a_call_count_interval ra of
                           None \<Rightarrow> 0
                         | Some n \<Rightarrow> n) \<rparr>;
          st' = st\<lparr>call_counts := (call_counts st)(i := (\<lambda>lc. 0))\<rparr>;
          tbl0 = (\<lambda>lc. map_option (\<lambda>f. f self) (k_methods k lc));
          ms = lifecycle_methods tbl0;
          tbl1 = apply_debug_log (debug_enabled st) self ms tbl0;
          tbl2 = apply_conditions self ms tbl1;
          tbl3 = apply_call_count self ms tbl2;
          tbl4 = apply_perf_monitoring self ms tbl3
      in (self, tbl4, st'))"

section \<open>Concrete objects for the examples of the wrappers\<close>

definition gate_cb :: callback where
  "gate_cb = base0 None None"

definition attack_handler :: "callback \<Rightarrow> handler" where
  "attack_handler cb = (\<lambda>c st. (Inr (PList (args c)), record_attack cb (inst c) None st))"

definition call0 :: call where
  "call0 = \<lparr> inst = PStr ''obj'', args = [PInt 1], kwargs = Map.empty, options = Map.empty \<rparr>"

section \<open>The effective handler of a phase\<close>

text \<open>
  Each \<^verbatim>\<open>_apply_\<close> method contributes one layer to a phase: its wrapper when its guard holds,
  nothing otherwise. \<open>built_pipeline\<close> stacks the layers in the order in which the
  constructor calls the methods; \<open>spec_pipeline\<close> is the order the specification gives,
  with the debug trace outermost.
\<close>

definition debug_layer :: "bool \<Rightarrow> callback \<Rightarrow> lifecycle \<Rightarrow> handler \<Rightarrow> handler" where
  "debug_layer is_enabled_for_debug cb lc h =
     (if is_enabled_for_debug then debug_log_wrapper h lc cb else h)"

definition condition_layer :: "callback \<Rightarrow> lifecycle \<Rightarrow> handler \<Rightarrow> handler" where
  "condition_layer cb lc h =
     (case conditions cb lc of
        Some tree \<Rightarrow> if tree_empty tree then h else check_condition_wrapper h cb tree lc
      | None \<Rightarrow> h)"

definition call_count_layer :: "callback \<Rightarrow> lifecycle \<Rightarrow> handler \<Rightarrow> handler" where
  "call_count_layer cb lc h =
     (if call_count_interval cb = 0 then h
      else call_count_wrapper h cb lc (observation_key_of cb lc))"

definition perf_layer :: "callback \<Rightarrow> lifecycle \<Rightarrow> handler \<Rightarrow> handler" where
  "perf_layer cb lc h =
     (if performance_monitoring_enabled cb
      then perf_monitoring_wrapper h (metric_name_of cb lc) else h)"

definition built_pipeline :: "bool \<Rightarrow> callback \<Rightarrow> lifecycle \<Rightarrow> handler \<Rightarrow> handler" where
  "built_pipeline dbg cb lc inner =
     perf_layer cb lc (call_count_layer cb lc (condition_layer cb lc (debug_layer dbg cb lc inner)))"

definition spec_pipeline :: "bool \<Rightarrow> callback \<Rightarrow> lifecycle \<Rightarrow> handler \<Rightarrow> handler" where
  "spec_pipeline dbg cb lc inner =
     debug_layer dbg cb lc (perf_layer cb lc (call_count_layer cb lc (condition_layer cb lc inner)))"

lemma fold_setattr:
  "distinct ms \<Longrightarrow>
   fold (\<lambda>lc t. t(lc := H lc (t lc))) ms tbl =
     (\<lambda>lc. if lc \<in> set ms then H lc (tbl lc) else tbl lc)"
proof (induction ms arbitrary: tbl)
  case Nil
  then show ?case by simp
next
  case (Cons a ms)
  from Cons.prems have d: "distinct ms" and a: "a \<notin> set ms"
    by simp_all
  have "fold (\<lambda>lc t. t(lc := H lc (t lc))) (a # ms) tbl =
      fold (\<lambda>lc t. t(lc := H lc (t lc))) ms (tbl(a := H a (tbl a)))"
    by simp
  also have "\<dots> = (\<lambda>lc. if lc \<in> set ms then H lc ((tbl(a := H a (tbl a))) lc)
            else (tbl(a := H a (tbl a))) lc)"
    by (rule Cons.IH [OF d])
  also have "\<dots> = (\<lambda>lc. if lc \<in> set (a # ms) then H lc (tbl lc) else tbl lc)"
    using a by (auto simp: fun_eq_iff)
  finally show ?case .
qed

lemma setattr_wrapped:
  "(\<lambda>lc t. case t lc of Some m \<Rightarrow> t(lc \<mapsto> W lc m) | None \<Rightarrow> t) =
   (\<lambda>lc t. t(lc := map_option (W lc) (t lc)))"
  by (intro ext) (auto split: option.splits)

lemma setattr_condition:
  "(\<lambda>lc t. case t lc of
      Some m \<Rightarrow>
        (case conditions cb lc of
           Some tree \<Rightarrow>
             if \<not> is_condition_empty (Some tree)
             then t(lc \<mapsto> check_condition_wrapper m cb tree lc)
             else t
         | None \<Rightarrow> t)
    | None \<Rightarrow> t) = (\<lambda>lc t. t(lc := map_option (condition_layer cb lc) (t lc)))"
  by (intro ext) (auto simp: condition_layer_def is_condition_empty_def split: option.splits)

lemma wrapped_loop:
  "distinct ms \<Longrightarrow>
   fold (\<lambda>lc t. case t lc of Some m \<Rightarrow> t(lc \<mapsto> W lc m) | None \<Rightarrow> t) ms tbl =
     (\<lambda>lc. if lc \<in> set ms then map_option (W lc) (tbl lc) else tbl lc)"
  using fold_setattr [of ms "\<lambda>lc. map_option (W lc)" tbl]
  by (simp only: setattr_wrapped)

lemma layers_off:
  "map_option (debug_layer False cb lc) x = x"
  "call_count_interval cb = 0 \<Longrightarrow> map_option (call_count_layer cb lc) x = x"
  "\<not> performance_monitoring_enabled cb \<Longrightarrow> map_option (perf_layer cb lc) x = x"
  by (cases x; simp add: debug_layer_def call_count_layer_def perf_layer_def)+

lemma layers_on:
  "debug_layer True cb lc = (\<lambda>m. debug_log_wrapper m lc cb)"
  "call_count_interval cb \<noteq> 0 \<Longrightarrow>
     call_count_layer cb lc = (\<lambda>m. call_count_wrapper m cb lc (observation_key_of cb lc))"
  "performance_monitoring_enabled cb \<Longrightarrow>
     perf_layer cb lc = (\<lambda>m. perf_monitoring_wrapper m (metric_name_of cb lc))"
  by (simp_all add: fun_eq_iff debug_layer_def call_count_layer_def perf_layer_def)

lemma apply_debug_log_eq:
  "distinct ms \<Longrightarrow>
   apply_debug_log dbg cb ms tbl =
     (\<lambda>lc. if lc \<in> set ms then map_option (debug_layer dbg cb lc) (tbl lc) else tbl lc)"
  by (cases dbg)
    (auto simp: apply_debug_log_def wrapped_loop layers_on layers_off fun_eq_iff)

lemma apply_conditions_eq:
  "distinct ms \<Longrightarrow>
   apply_conditions cb ms tbl =
     (\<lambda>lc. if lc \<in> set ms then map_option (condition_layer cb lc) (tbl lc) else tbl lc)"
  unfolding apply_conditions_def
  using fold_setattr [of ms "\<lambda>lc. map_option (condition_layer cb lc)" tbl]
  by (simp only: setattr_condition)

lemma apply_call_count_eq:
  "distinct ms \<Longrightarrow>
   apply_call_count cb ms tbl =
     (\<lambda>lc. if lc \<in> set ms then map_option (call_count_layer cb lc) (tbl lc) else tbl lc)"
  by (cases "call_count_interval cb = 0")
    (auto simp: apply_call_count_def wrapped_loop layers_on layers_off fun_eq_iff)

lemma apply_perf_monitoring_eq:
  "distinct ms \<Longrightarrow>
   apply_perf_monitoring cb ms tbl =
     (\<lambda>lc. if lc \<in> set ms then map_option (perf_layer cb lc) (tbl lc) else tbl lc)"
  by (cases "performance_monitoring_enabled cb")
    (auto simp: apply_perf_monitoring_def wrapped_loop layers_on layers_off fun_eq_iff)

lemma distinct_lifecycle_methods: "distinct (lifecycle_methods tbl)"
  by (simp add: lifecycle_methods_def)

lemma set_lifecycle_methods: "lc \<in> set (lifecycle_methods tbl) \<longleftrightarrow> tbl lc \<noteq> None"
  by (cases lc) (auto simp: lifecycle_methods_def)

lemma triple_eq: "x = (fst x, fst (snd x), snd (snd x))"
  by simp

lemma RuleCallback_init_methods:
  "fst (snd (RuleCallback_init i k rnr ra sc)) lc =
     map_option (\<lambda>f. built_pipeline (debug_enabled sc) (fst (RuleCallback_init i k rnr ra sc)) lc
                       (f (fst (RuleCallback_init i k rnr ra sc))))
       (k_methods k lc)"
  by (cases "k_methods k lc")
    (simp_all add: RuleCallback_init_def Let_def apply_debug_log_eq apply_conditions_eq
      apply_call_count_eq apply_perf_monitoring_eq distinct_lifecycle_methods
      set_lifecycle_methods built_pipeline_def)

lemma fst_RuleCallback_init:
  "fst (RuleCallback_init i k rnr ra sc) =
     (BaseCallback_init i (k_SUPPORTS_BUDGET k) (k_INTERRUPTIBLE k) (a_rule_name ra)
        (a_rulespack_id ra) rnr (a_beta ra) (a_block ra) (a_test ra) (a_data ra)
        (a_metrics ra) (a_payload_sections ra) (a_priority ra) (a_attack_type ra))
     \<lparr> conditions := (case a_conditions ra of None \<Rightarrow> Map.empty | Some cs \<Rightarrow> cs),
       call_count_interval := (case a_call_count_interval ra of None \<Rightarrow> 0 | Some n \<Rightarrow> n) \<rparr>"
  by (simp add: RuleCallback_init_def Let_def)


definition quiet_state :: state where
  "quiet_state = state0\<lparr>debug_enabled := False\<rparr>"

definition attack_klass :: klass where
  "attack_klass = \<lparr> k_SUPPORTS_BUDGET = False, k_INTERRUPTIBLE = True,
                    k_methods = [Pre \<mapsto> attack_handler] \<rparr>"

definition raising_klass :: klass where
  "raising_klass = \<lparr> k_SUPPORTS_BUDGET = False, k_INTERRUPTIBLE = True,
                     k_methods = [Pre \<mapsto> (\<lambda>cb c st. (Inl (OtherException ''boom''), st))] \<rparr>"

definition plain_args :: rule_args where
  "plain_args = \<lparr> a_rule_name = ''rule'', a_rulespack_id = ''pack'', a_beta = PNone,
                  a_block = PNone, a_test = PNone, a_data = PNone, a_conditions = None,
                  a_call_count_interval = None, a_metrics = PNone,
                  a_payload_sections = None, a_priority = None, a_attack_type = PNone \<rparr>"

definition never_cond :: condition where
  "never_cond = Condition False (\<lambda>b. Some False)"

definition gated_args :: rule_args where
  "gated_args = plain_args\<lparr> a_conditions := Some [Pre \<mapsto> never_cond],
                            a_call_count_interval := Some 3 \<rparr>"

lemma self_fields:
  "rule_name (fst (RuleCallback_init i k rnr gated_args sc)) = ''rule''"
  "rulespack_id (fst (RuleCallback_init i k rnr gated_args sc)) = ''pack''"
  "conditions (fst (RuleCallback_init i k rnr gated_args sc)) = [Pre \<mapsto> never_cond]"
  "call_count_interval (fst (RuleCallback_init i k rnr gated_args sc)) = 3"
  "cb_runner (fst (RuleCallback_init i k rnr gated_args sc)) = rnr"
  "rule_name (fst (RuleCallback_init i k rnr plain_args sc)) = ''rule''"
  "rulespack_id (fst (RuleCallback_init i k rnr plain_args sc)) = ''pack''"
  "conditions (fst (RuleCallback_init i k rnr plain_args sc)) = Map.empty"
  "call_count_interval (fst (RuleCallback_init i k rnr plain_args sc)) = 0"
  "cb_runner (fst (RuleCallback_init i k rnr plain_args sc)) = rnr"
  "SUPPORTS_BUDGET (fst (RuleCallback_init i k rnr plain_args sc)) = k_SUPPORTS_BUDGET k"
  "self_id (fst (RuleCallback_init i k rnr plain_args sc)) = i"
  "self_id (fst (RuleCallback_init i k rnr gated_args sc)) = i"
  "payload_sections (fst (RuleCallback_init i k rnr plain_args sc)) = SECTIONS"
  by (simp_all add: fst_RuleCallback_init BaseCallback_init_def gated_args_def plain_args_def)

lemma state0_fields:
  "debug_enabled state0" "logs state0 = []" "traces state0 = []" "observe_calls state0 = []"
  "call_counts state0 = (\<lambda>_ _. 0)" "clock state0 = 7" "current_request state0 = None"
  "\<not> debug_enabled quiet_state"
  by (simp_all add: state0_def quiet_state_def)

lemma enabled_runner0:
  "cb_runner cb = Some runner0 \<Longrightarrow> performance_monitoring_enabled cb"
  "cb_runner cb = None \<Longrightarrow> \<not> performance_monitoring_enabled cb"
  by (simp_all add: performance_monitoring_enabled_def runner0_def)

text \<open>
  C3, as the spec states it: the debug trace is the outermost decorator. It fails for a
  callback built with debug logging on and a condition that evaluates to \<^verbatim>\<open>False\<close>: the
  handler that the constructor builds logs the skip only, while the composition with the
  debug trace outermost logs the phase entry first.
\<close>

theorem debug_outermost_counterexample:
  "map_option (\<lambda>h. logs (snd (h call0 state0)))
       (fst (snd (RuleCallback_init 0 attack_klass None gated_args state0)) Pre) =
     Some [LogNotRunning Pre ''rule'' (Some False)]
   \<and> logs (snd (spec_pipeline True (fst (RuleCallback_init 0 attack_klass None gated_args state0)) Pre
        (attack_handler (fst (RuleCallback_init 0 attack_klass None gated_args state0)))
        call0 state0)) =
     [LogRunning Pre ''rule'', LogNotRunning Pre ''rule'' (Some False)]"
  by (simp add: RuleCallback_init_methods attack_klass_def built_pipeline_def spec_pipeline_def
      perf_layer_def call_count_layer_def condition_layer_def debug_layer_def self_fields
      enabled_runner0 never_cond_def call_count_wrapper_def count_call_def check_condition_wrapper_def
      debug_log_wrapper_def LOGGER_debug_def state0_fields Let_def)

text \<open>
  C3, amended: for every phase that the callback implements, the effective handler built at
  construction is, innermost to outermost, the phase's own logic, the debug trace, the
  condition gate, the call-count sampler and the performance monitor; a decorator whose
  guard is false is left out, not inserted as a no-op. A phase that the callback does not
  implement has no handler.
\<close>

theorem handler_composition:
  "RuleCallback_init i k rnr ra sc = (self, tbl, sc') \<Longrightarrow>
   (case k_methods k lc of
      None \<Rightarrow> tbl lc = None
    | Some f \<Rightarrow>
        tbl lc = Some (perf_layer self lc (call_count_layer self lc
                   (condition_layer self lc (debug_layer (debug_enabled sc) self lc (f self))))))
   \<and> debug_layer (debug_enabled sc) self lc =
       (if debug_enabled sc then (\<lambda>h. debug_log_wrapper h lc self) else (\<lambda>h. h))
   \<and> condition_layer self lc =
       (case conditions self lc of
          Some tree \<Rightarrow>
            if is_condition_empty (Some tree) then (\<lambda>h. h)
            else (\<lambda>h. check_condition_wrapper h self tree lc)
        | None \<Rightarrow> (\<lambda>h. h))
   \<and> call_count_layer self lc =
       (if call_count_interval self = 0 then (\<lambda>h. h)
        else (\<lambda>h. call_count_wrapper h self lc (observation_key_of self lc)))
   \<and> perf_layer self lc =
       (if performance_monitoring_enabled self
        then (\<lambda>h. perf_monitoring_wrapper h (metric_name_of self lc)) else (\<lambda>h. h))"
proof -
  assume init: "RuleCallback_init i k rnr ra sc = (self, tbl, sc')"
  then have self: "self = fst (RuleCallback_init i k rnr ra sc)"
    and tbl: "tbl = fst (snd (RuleCallback_init i k rnr ra sc))"
    by simp_all
  have "tbl lc = map_option (\<lambda>f. built_pipeline (debug_enabled sc) self lc (f self)) (k_methods k lc)"
    unfolding self tbl by (rule RuleCallback_init_methods)
  then have methods: "case k_methods k lc of
      None \<Rightarrow> tbl lc = None
    | Some f \<Rightarrow>
        tbl lc = Some (perf_layer self lc (call_count_layer self lc
                   (condition_layer self lc (debug_layer (debug_enabled sc) self lc (f self)))))"
    by (simp add: built_pipeline_def split: option.splits)
  have dl: "debug_layer (debug_enabled sc) self lc =
       (if debug_enabled sc then (\<lambda>h. debug_log_wrapper h lc self) else (\<lambda>h. h))"
    by (simp add: fun_eq_iff debug_layer_def)
  have cl: "condition_layer self lc =
       (case conditions self lc of
          Some tree \<Rightarrow>
            if is_condition_empty (Some tree) then (\<lambda>h. h)
            else (\<lambda>h. check_condition_wrapper h self tree lc)
        | None \<Rightarrow> (\<lambda>h. h))"
    by (simp add: fun_eq_iff condition_layer_def is_condition_empty_def split: option.splits)
  have ccl: "call_count_layer self lc =
       (if call_count_interval self = 0 then (\<lambda>h. h)
        else (\<lambda>h. call_count_wrapper h self lc (observation_key_of self lc)))"
    by (simp add: fun_eq_iff call_count_layer_def)
  have pl: "perf_layer self lc =
       (if performance_monitoring_enabled self
        then (\<lambda>h. perf_monitoring_wrapper h (metric_name_of self lc)) else (\<lambda>h. h))"
    by (simp add: fun_eq_iff perf_layer_def)
  from methods dl cl ccl pl show ?thesis by simp
qed

theorem handler_composition_witness:
  "fst (snd (RuleCallback_init 0 attack_klass (Some runner0) gated_args state0)) Pre =
     Some (perf_monitoring_wrapper
             (call_count_wrapper
                (check_condition_wrapper
                   (debug_log_wrapper
                      (attack_handler
                         (fst (RuleCallback_init 0 attack_klass (Some runner0) gated_args state0)))
                      Pre (fst (RuleCallback_init 0 attack_klass (Some runner0) gated_args state0)))
                   (fst (RuleCallback_init 0 attack_klass (Some runner0) gated_args state0))
                   never_cond Pre)
                (fst (RuleCallback_init 0 attack_klass (Some runner0) gated_args state0))
                Pre ''pack/rule/pre'')
             ''sq.rule.pre'')
   \<and> fst (snd (RuleCallback_init 0 attack_klass (Some runner0) gated_args state0)) Post = None
   \<and> fst (snd (RuleCallback_init 0 attack_klass None plain_args quiet_state)) Pre =
       Some (attack_handler (fst (RuleCallback_init 0 attack_klass None plain_args quiet_state)))"
proof -
  have m: "k_methods attack_klass Pre = Some attack_handler" "k_methods attack_klass Post = None"
    by (simp_all add: attack_klass_def)
  have e: "\<not> tree_empty never_cond"
    by (simp add: never_cond_def)
  note t1 = handler_composition [OF triple_eq, of 0 attack_klass "Some runner0" gated_args
      state0 Pre]
  note t2 = handler_composition [OF triple_eq, of 0 attack_klass "Some runner0" gated_args
      state0 Post]
  note t3 = handler_composition [OF triple_eq, of 0 attack_klass None plain_args
      quiet_state Pre]
  from t1 m e have a: "fst (snd (RuleCallback_init 0 attack_klass (Some runner0) gated_args state0)) Pre =
     Some (perf_monitoring_wrapper
             (call_count_wrapper
                (check_condition_wrapper
                   (debug_log_wrapper
                      (attack_handler
                         (fst (RuleCallback_init 0 attack_klass (Some runner0) gated_args state0)))
                      Pre (fst (RuleCallback_init 0 attack_klass (Some runner0) gated_args state0)))
                   (fst (RuleCallback_init 0 attack_klass (Some runner0) gated_args state0))
                   never_cond Pre)
                (fst (RuleCallback_init 0 attack_klass (Some runner0) gated_args state0))
                Pre ''pack/rule/pre'')
             ''sq.rule.pre'')"
    by (simp add: self_fields enabled_runner0 is_condition_empty_def observation_key_of_def
        metric_name_of_def state0_fields)
  from t2 m have b: "fst (snd (RuleCallback_init 0 attack_klass (Some runner0) gated_args state0)) Post
      = None"
    by simp
  from t3 m have c: "fst (snd (RuleCallback_init 0 attack_klass None plain_args quiet_state)) Pre =
       Some (attack_handler (fst (RuleCallback_init 0 attack_klass None plain_args quiet_state)))"
    by (simp add: self_fields enabled_runner0 state0_fields)
  from a b c show ?thesis by simp
qed

section \<open>The performance monitor\<close>

lemma perf_monitoring_wrapper_result:
  "fst (perf_monitoring_wrapper h name c st) = fst (h c (trace_enter name st))"
  "snd (perf_monitoring_wrapper h name c st) = trace_exit name (snd (h c (trace_enter name st)))"
  by (simp_all add: perf_monitoring_wrapper_def split: prod.splits sum.splits)

text \<open>
  C5, as the spec states it: the performance monitor is applied only when the callback
  declares budget support. It fails for a callback that does not declare it and whose
  runner has performance monitoring enabled: its \<^verbatim>\<open>pre\<close> handler opens and closes the trace
  scope \<^verbatim>\<open>sq.rule.pre\<close>.
\<close>

theorem unbudgeted_monitored_counterexample:
  "\<not> SUPPORTS_BUDGET (fst (RuleCallback_init 0 attack_klass (Some runner0) plain_args quiet_state))
   \<and> map_option (\<lambda>h. traces (snd (h call0 state0)))
       (fst (snd (RuleCallback_init 0 attack_klass (Some runner0) plain_args quiet_state)) Pre) =
     Some [TraceEnter ''sq.rule.pre'', TraceExit ''sq.rule.pre'']"
  by (simp add: RuleCallback_init_methods attack_klass_def built_pipeline_def
      perf_layer_def call_count_layer_def condition_layer_def debug_layer_def self_fields
      enabled_runner0 metric_name_of_def perf_monitoring_wrapper_result trace_enter_def
      trace_exit_def attack_handler_def record_attack_def observe_def LOGGER_debug_def
      state0_fields Let_def)

text \<open>
  C5, amended: for every phase that the callback implements, the performance monitor wraps
  the handler if and only if performance monitoring is enabled for the callback, that is,
  it has a runner whose \<^verbatim>\<open>performance_metrics\<close> flag is set and whose settings are enabled;
  budget support plays no part. The wrapper opens the trace scope before the inner handler
  runs and closes it after, whether the inner handler returns or raises, and the outcome
  is the inner handler's.
\<close>

theorem perf_monitoring_applied:
  "RuleCallback_init i k rnr ra sc = (self, tbl, sc') \<Longrightarrow> k_methods k lc = Some f \<Longrightarrow>
   inner = call_count_layer self lc (condition_layer self lc (debug_layer (debug_enabled sc) self lc (f self)))
   \<Longrightarrow>
   tbl lc = Some (if performance_monitoring_enabled self
                  then perf_monitoring_wrapper inner (metric_name_of self lc) else inner)
   \<and> performance_monitoring_enabled self =
       (case rnr of
          Some r \<Rightarrow> performance_metrics r \<and> performance_metrics_settings_enabled r
        | None \<Rightarrow> False)
   \<and> fst (perf_monitoring_wrapper h name c st) = fst (h c (trace_enter name st))
   \<and> traces (trace_enter name st) = traces st @ [TraceEnter name]
   \<and> traces (snd (perf_monitoring_wrapper h name c st)) =
       traces (snd (h c (trace_enter name st))) @ [TraceExit name]"
proof -
  assume init: "RuleCallback_init i k rnr ra sc = (self, tbl, sc')"
    and f: "k_methods k lc = Some f"
    and inner: "inner = call_count_layer self lc (condition_layer self lc
        (debug_layer (debug_enabled sc) self lc (f self)))"
  from init have self: "self = fst (RuleCallback_init i k rnr ra sc)"
    and tbl: "tbl = fst (snd (RuleCallback_init i k rnr ra sc))"
    by simp_all
  have "tbl lc = map_option (\<lambda>f. built_pipeline (debug_enabled sc) self lc (f self)) (k_methods k lc)"
    unfolding self tbl by (rule RuleCallback_init_methods)
  with f inner have a: "tbl lc = Some (if performance_monitoring_enabled self
                  then perf_monitoring_wrapper inner (metric_name_of self lc) else inner)"
    by (simp add: built_pipeline_def perf_layer_def)
  have b: "performance_monitoring_enabled self =
       (case rnr of
          Some r \<Rightarrow> performance_metrics r \<and> performance_metrics_settings_enabled r
        | None \<Rightarrow> False)"
    unfolding self
    by (simp add: performance_monitoring_enabled_def fst_RuleCallback_init BaseCallback_init_def)
  have c: "traces (trace_enter name st) = traces st @ [TraceEnter name]"
    by (simp add: trace_enter_def)
  have d: "traces (snd (perf_monitoring_wrapper h name c st)) =
       traces (snd (h c (trace_enter name st))) @ [TraceExit name]"
    by (simp add: perf_monitoring_wrapper_result trace_exit_def)
  from a b c d show ?thesis
    by (simp add: perf_monitoring_wrapper_result)
qed

theorem perf_monitoring_applied_witness:
  "map_option (\<lambda>h. (fst (h call0 state0), traces (snd (h call0 state0))))
       (fst (snd (RuleCallback_init 0 raising_klass (Some runner0) plain_args quiet_state)) Pre) =
     Some (Inl (OtherException ''boom''), [TraceEnter ''sq.rule.pre'', TraceExit ''sq.rule.pre''])
   \<and> map_option (\<lambda>h. (fst (h call0 state0), traces (snd (h call0 state0))))
       (fst (snd (RuleCallback_init 0 raising_klass None plain_args quiet_state)) Pre) =
     Some (Inl (OtherException ''boom''), [])"
proof -
  let ?boom = "(\<lambda>cb c st. (Inl (OtherException ''boom''), st)) :: callback \<Rightarrow> handler"
  have m: "k_methods raising_klass Pre = Some ?boom"
    by (simp add: raising_klass_def)
  have layers: "call_count_layer (fst (RuleCallback_init 0 raising_klass rnr plain_args quiet_state))
      Pre
      (condition_layer (fst (RuleCallback_init 0 raising_klass rnr plain_args quiet_state)) Pre
        (debug_layer (debug_enabled quiet_state)
           (fst (RuleCallback_init 0 raising_klass rnr plain_args quiet_state)) Pre h)) = h"
    for rnr h
    by (simp add: call_count_layer_def condition_layer_def debug_layer_def self_fields
        state0_fields)
  note t1 = perf_monitoring_applied [where i = 0 and k = raising_klass
      and rnr = "Some runner0" and ra = plain_args and sc = quiet_state and lc = Pre
      and h = "?boom (fst (RuleCallback_init 0 raising_klass (Some runner0) plain_args
        quiet_state))"
      and name = "''sq.rule.pre''" and c = call0 and st = state0,
      OF triple_eq m layers [symmetric]]
  note t2 = perf_monitoring_applied [where i = 0 and k = raising_klass
      and rnr = None and ra = plain_args and sc = quiet_state and lc = Pre
      and h = "?boom (fst (RuleCallback_init 0 raising_klass None plain_args quiet_state))"
      and name = "''sq.rule.pre''" and c = call0 and st = state0,
      OF triple_eq m layers [symmetric]]
  from t1 have a: "map_option (\<lambda>h. (fst (h call0 state0), traces (snd (h call0 state0))))
       (fst (snd (RuleCallback_init 0 raising_klass (Some runner0) plain_args quiet_state)) Pre) =
     Some (Inl (OtherException ''boom''), [TraceEnter ''sq.rule.pre'', TraceExit ''sq.rule.pre''])"
    by (simp add: self_fields enabled_runner0 metric_name_of_def state0_fields)
  from t2 have b: "map_option (\<lambda>h. (fst (h call0 state0), traces (snd (h call0 state0))))
       (fst (snd (RuleCallback_init 0 raising_klass None plain_args quiet_state)) Pre) =
     Some (Inl (OtherException ''boom''), [])"
    by (simp add: self_fields enabled_runner0 state0_fields)
  from a b show ?thesis by simp
qed

section \<open>Running the effective handler\<close>

text \<open>
  What each outer decorator does to the state before and after the handler it wraps, in the
  order in which an invocation meets them: the performance monitor opens its scope, the
  sampler counts the call, the gate decides, the debug trace logs the entry; on the way
  out the performance monitor closes its scope.
\<close>

definition perf_enter :: "callback \<Rightarrow> lifecycle \<Rightarrow> state \<Rightarrow> state" where
  "perf_enter cb lc st =
     (if performance_monitoring_enabled cb then trace_enter (metric_name_of cb lc) st else st)"

definition perf_exit :: "callback \<Rightarrow> lifecycle \<Rightarrow> state \<Rightarrow> state" where
  "perf_exit cb lc st =
     (if performance_monitoring_enabled cb then trace_exit (metric_name_of cb lc) st else st)"

definition count_enter :: "callback \<Rightarrow> lifecycle \<Rightarrow> state \<Rightarrow> state" where
  "count_enter cb lc st =
     (if call_count_interval cb = 0 then st
      else count_call cb lc (observation_key_of cb lc) st)"

definition debug_enter :: "bool \<Rightarrow> callback \<Rightarrow> lifecycle \<Rightarrow> state \<Rightarrow> state" where
  "debug_enter dbg cb lc st = (if dbg then LOGGER_debug (LogRunning lc (rule_name cb)) st else st)"

fun is_attack :: "observed \<Rightarrow> bool" where
  "is_attack (Attacks p secs) = True"
| "is_attack _ = False"

lemma perf_layer_run:
  "perf_layer cb lc h c st =
     (fst (h c (perf_enter cb lc st)), perf_exit cb lc (snd (h c (perf_enter cb lc st))))"
  by (simp add: perf_layer_def perf_enter_def perf_exit_def perf_monitoring_wrapper_def
      split: prod.splits sum.splits)

lemma call_count_layer_run:
  "call_count_layer cb lc h c st = h c (count_enter cb lc st)"
  by (simp add: call_count_layer_def count_enter_def call_count_wrapper_def)

lemma debug_layer_run:
  "debug_layer dbg cb lc h c st = h c (debug_enter dbg cb lc st)"
  by (simp add: debug_layer_def debug_enter_def debug_log_wrapper_def)

lemma built_pipeline_run:
  "built_pipeline dbg cb lc inner c st =
     (fst (condition_layer cb lc (debug_layer dbg cb lc inner) c
             (count_enter cb lc (perf_enter cb lc st))),
      perf_exit cb lc
        (snd (condition_layer cb lc (debug_layer dbg cb lc inner) c
                (count_enter cb lc (perf_enter cb lc st)))))"
  by (simp add: built_pipeline_def perf_layer_run call_count_layer_run)

lemma count_call_frame:
  "current_request (count_call cb lc key st) = current_request st"
  "current_response (count_call cb lc key st) = current_response st"
  "stored_args (count_call cb lc key st) = stored_args st"
  "request_store (count_call cb lc key st) = request_store st"
  "filter is_attack (observe_calls (count_call cb lc key st)) =
     filter is_attack (observe_calls st)"
  by (simp_all add: count_call_def record_observation_def observe_def LOGGER_debug_def Let_def)

lemma gate_state_frame:
  "binding_eval_args cb lc c (count_enter cb lc (perf_enter cb lc st)) =
     binding_eval_args cb lc c st"
  "filter is_attack (observe_calls (count_enter cb lc (perf_enter cb lc st))) =
     filter is_attack (observe_calls st)"
  "call_count_interval cb = 0 \<Longrightarrow>
     observe_calls (count_enter cb lc (perf_enter cb lc st)) = observe_calls st"
  by (simp_all add: binding_eval_args_def get_current_args_def count_enter_def perf_enter_def
      trace_enter_def count_call_frame)

lemma init_fields:
  "self_id (fst (RuleCallback_init i k rnr ra sc)) = i"
  "rule_name (fst (RuleCallback_init i k rnr ra sc)) = a_rule_name ra"
  "rulespack_id (fst (RuleCallback_init i k rnr ra sc)) = a_rulespack_id ra"
  "cb_runner (fst (RuleCallback_init i k rnr ra sc)) = rnr"
  "conditions (fst (RuleCallback_init i k rnr ra sc)) =
     (case a_conditions ra of None \<Rightarrow> Map.empty | Some cs \<Rightarrow> cs)"
  "call_count_interval (fst (RuleCallback_init i k rnr ra sc)) =
     (case a_call_count_interval ra of None \<Rightarrow> 0 | Some n \<Rightarrow> n)"
  "payload_sections (fst (RuleCallback_init i k rnr ra sc)) =
     (case a_payload_sections ra of None \<Rightarrow> SECTIONS | Some s \<Rightarrow> s)"
  by (simp_all add: fst_RuleCallback_init BaseCallback_init_def)

section \<open>The condition gate\<close>

definition sampled_once_args :: rule_args where
  "sampled_once_args = plain_args\<lparr> a_conditions := Some [Pre \<mapsto> never_cond],
                                   a_call_count_interval := Some 1 \<rparr>"

text \<open>
  C1, as the spec states it: when the condition evaluates to \<^verbatim>\<open>False\<close>, invoking the
  effective handler records no observation. It fails for a callback with the sampling
  interval 1: the sampler wraps the gate, so the invocation returns \<^verbatim>\<open>None\<close> and yet
  records the observation \<^verbatim>\<open>sqreen_call_counts\<close>.
\<close>

theorem gated_call_sampled_counterexample:
  "map_option (\<lambda>h. (fst (h call0 state0), observe_calls (snd (h call0 state0))))
       (fst (snd (RuleCallback_init 0 attack_klass None sampled_once_args state0)) Pre) =
     Some (Inr PNone, [Observations ''sqreen_call_counts'' 7 ''pack/rule/pre'' (PInt 1)])"
  by (simp add: RuleCallback_init_methods attack_klass_def built_pipeline_run
      condition_layer_def init_fields sampled_once_args_def plain_args_def never_cond_def
      check_condition_wrapper_def count_enter_def perf_enter_def perf_exit_def enabled_runner0
      count_call_def record_observation_def observe_def LOGGER_debug_def now_def
      observation_key_of_def state0_fields Let_def)

text \<open>
  C1, amended: for every attached callback with a non-empty condition tree on a phase,
  invoking that phase's effective handler when the condition evaluates to \<^verbatim>\<open>False\<close> or to
  \<^verbatim>\<open>None\<close> returns \<^verbatim>\<open>None\<close> and does not run the inner phase logic: the state is the one
  in which the gate was reached, with the debug record of the skip and the performance
  scope closed, so the invocation records no attack, and no observation either unless the
  sampler, which wraps the gate, is installed. When the condition evaluates to \<^verbatim>\<open>True\<close>,
  the inner phase logic runs exactly once, on the instance, positional arguments, keyword
  arguments and options that the handler received.
\<close>

theorem condition_gate_effective:
  assumes "RuleCallback_init i k rnr ra sc = (self, tbl, sc')"
    and "k_methods k lc = Some f"
    and "conditions self lc = Some tree"
    and "\<not> tree_empty tree"
    and "gate = count_enter self lc (perf_enter self lc st)"
    and "result = evaluate tree (binding_eval_args self lc c st)"
  shows "\<exists>h. tbl lc = Some h
     \<and> (result = Some False \<or> result = None \<longrightarrow>
          h c st = (Inr PNone,
                    perf_exit self lc
                      (LOGGER_debug (LogNotRunning lc (rule_name self) result) gate))
          \<and> filter is_attack (observe_calls (snd (h c st))) =
              filter is_attack (observe_calls st)
          \<and> (call_count_interval self = 0 \<longrightarrow>
               observe_calls (snd (h c st)) = observe_calls st))
     \<and> (result = Some True \<longrightarrow>
          h c st = (fst (f self c (debug_enter (debug_enabled sc) self lc gate)),
                    perf_exit self lc
                      (snd (f self c (debug_enter (debug_enabled sc) self lc gate)))))"
proof -
  from assms(1) have self: "self = fst (RuleCallback_init i k rnr ra sc)"
    and tbl: "tbl = fst (snd (RuleCallback_init i k rnr ra sc))"
    by simp_all
  let ?h = "built_pipeline (debug_enabled sc) self lc (f self)"
  have h: "tbl lc = Some ?h"
    unfolding self tbl using assms(2) by (simp add: RuleCallback_init_methods)
  have gated: "condition_layer self lc g = check_condition_wrapper g self tree lc" for g
    using assms(3,4) by (simp add: condition_layer_def)
  have bind: "binding_eval_args self lc c gate = binding_eval_args self lc c st"
    unfolding assms(5) by (rule gate_state_frame)
  have run: "?h c st =
      (fst (check_condition_wrapper (debug_layer (debug_enabled sc) self lc (f self)) self tree lc
              c gate),
       perf_exit self lc
         (snd (check_condition_wrapper (debug_layer (debug_enabled sc) self lc (f self)) self
                 tree lc c gate)))"
    by (simp add: built_pipeline_run gated assms(5))
  have skip: "?h c st = (Inr PNone,
                    perf_exit self lc
                      (LOGGER_debug (LogNotRunning lc (rule_name self) result) gate))"
    if "result = Some False \<or> result = None"
    using that by (simp add: run check_condition_wrapper_def bind assms(6) [symmetric])
  have attacks: "filter is_attack (observe_calls (perf_exit self lc
        (LOGGER_debug (LogNotRunning lc (rule_name self) result) gate))) =
      filter is_attack (observe_calls st)"
    by (simp add: perf_exit_def trace_exit_def LOGGER_debug_def assms(5) gate_state_frame)
  have quiet: "observe_calls (perf_exit self lc
        (LOGGER_debug (LogNotRunning lc (rule_name self) result) gate)) = observe_calls st"
    if "call_count_interval self = 0"
    using that by (simp add: perf_exit_def trace_exit_def LOGGER_debug_def assms(5)
        gate_state_frame)
  have pass: "?h c st = (fst (f self c (debug_enter (debug_enabled sc) self lc gate)),
                    perf_exit self lc
                      (snd (f self c (debug_enter (debug_enabled sc) self lc gate))))"
    if "result = Some True"
    using that
    by (simp add: run check_condition_wrapper_def bind assms(6) [symmetric] debug_layer_run)
  from h skip attacks quiet pass show ?thesis
    by auto
qed

definition gate_cond :: condition where
  "gate_cond = Condition False (\<lambda>b. if b_args b = [] then None
                                     else if b_inst b = PNone then Some False else Some True)"

definition gate_args :: rule_args where
  "gate_args = plain_args\<lparr> a_conditions := Some [Pre \<mapsto> gate_cond] \<rparr>"

theorem condition_gate_effective_witness:
  "map_option (\<lambda>h. h (call0\<lparr>inst := PNone\<rparr>) state0)
       (fst (snd (RuleCallback_init 0 attack_klass None gate_args quiet_state)) Pre) =
     Some (Inr PNone, state0\<lparr>logs := [LogNotRunning Pre ''rule'' (Some False)]\<rparr>)
   \<and> map_option (\<lambda>h. observe_calls (snd (h (call0\<lparr>args := []\<rparr>) state0)))
       (fst (snd (RuleCallback_init 0 attack_klass None gate_args quiet_state)) Pre) = Some []
   \<and> map_option (\<lambda>h. h call0 state0)
       (fst (snd (RuleCallback_init 0 attack_klass None gate_args quiet_state)) Pre) =
     Some (attack_handler (fst (RuleCallback_init 0 attack_klass None gate_args quiet_state))
             call0 state0)
   \<and> map_option (\<lambda>h. map is_attack (observe_calls (snd (h call0 state0))))
       (fst (snd (RuleCallback_init 0 attack_klass None gate_args quiet_state)) Pre) =
     Some [True]"
proof -
  let ?self = "fst (RuleCallback_init 0 attack_klass None gate_args quiet_state)"
  let ?tbl = "fst (snd (RuleCallback_init 0 attack_klass None gate_args quiet_state))"
  have m: "k_methods attack_klass Pre = Some attack_handler"
    by (simp add: attack_klass_def)
  have fields: "conditions ?self Pre = Some gate_cond" "call_count_interval ?self = 0"
    "cb_runner ?self = None" "rule_name ?self = ''rule''"
    by (simp_all add: init_fields gate_args_def plain_args_def)
  have nonempty: "\<not> tree_empty gate_cond"
    by (simp add: gate_cond_def)
  have gate: "count_enter ?self Pre (perf_enter ?self Pre state0) = state0"
    "perf_exit ?self Pre s = s" "debug_enter (debug_enabled quiet_state) ?self Pre s = s" for s
    by (simp_all add: count_enter_def perf_enter_def perf_exit_def debug_enter_def fields
        enabled_runner0 state0_fields)
  have e1: "evaluate gate_cond (binding_eval_args ?self Pre (call0\<lparr>inst := PNone\<rparr>) state0)
      = Some False"
    and e2: "evaluate gate_cond (binding_eval_args ?self Pre (call0\<lparr>args := []\<rparr>) state0)
      = None"
    and e3: "evaluate gate_cond (binding_eval_args ?self Pre call0 state0) = Some True"
    by (simp_all add: gate_cond_def binding_eval_args_def call0_def get_current_args_def
        state0_def)
  have dbg: "LOGGER_debug msg state0 = state0\<lparr>logs := [msg]\<rparr>" for msg
    by (simp add: LOGGER_debug_def state0_def)
  have s0: "observe_calls state0 = []"
    by (simp add: state0_fields)
  note t = condition_gate_effective [OF triple_eq m fields(1) nonempty refl refl, where st = state0]
  from t [of "call0\<lparr>inst := PNone\<rparr>"] t [of "call0\<lparr>args := []\<rparr>"] t [of call0]
  obtain h where h: "?tbl Pre = Some h"
    and a: "h (call0\<lparr>inst := PNone\<rparr>) state0 =
      (Inr PNone, state0\<lparr>logs := [LogNotRunning Pre ''rule'' (Some False)]\<rparr>)"
    and b: "observe_calls (snd (h (call0\<lparr>args := []\<rparr>) state0)) = []"
    and c: "h call0 state0 = attack_handler ?self call0 state0"
    by (auto simp: e1 e2 e3 gate dbg fields s0)
  have d: "map is_attack (observe_calls (snd (attack_handler ?self call0 state0))) = [True]"
    by (simp add: attack_handler_def record_attack_def observe_def LOGGER_debug_def state0_def
        Let_def)
  from h a b c d show ?thesis by simp
qed

section \<open>Call-count sampling\<close>













section \<open>Whitelisted requests\<close>

text \<open>
  A handler ignores the whitelist when a whitelist match in the storage changes neither its
  outcome nor what it does to the state.
\<close>

definition ignores_whitelist :: "handler \<Rightarrow> bool" where
  "ignores_whitelist h =
     (\<forall>c st w. h c (st\<lparr>whitelist_match := w\<rparr>) =
        (fst (h c st), (snd (h c st))\<lparr>whitelist_match := w\<rparr>))"

lemma whitelist_commutes:
  "LOGGER_debug msg (st\<lparr>whitelist_match := w\<rparr>) = (LOGGER_debug msg st)\<lparr>whitelist_match := w\<rparr>"
  "observe ev (st\<lparr>whitelist_match := w\<rparr>) = (observe ev st)\<lparr>whitelist_match := w\<rparr>"
  "trace_enter name (st\<lparr>whitelist_match := w\<rparr>) = (trace_enter name st)\<lparr>whitelist_match := w\<rparr>"
  "trace_exit name (st\<lparr>whitelist_match := w\<rparr>) = (trace_exit name st)\<lparr>whitelist_match := w\<rparr>"
  "now (st\<lparr>whitelist_match := w\<rparr>) = now st"
  by (simp_all add: LOGGER_debug_def observe_def trace_enter_def trace_exit_def now_def)

lemma record_attack_whitelist:
  "record_attack cb infos ts (st\<lparr>whitelist_match := w\<rparr>) =
     (record_attack cb infos ts st)\<lparr>whitelist_match := w\<rparr>"
  by (simp add: record_attack_def Let_def whitelist_commutes cong: option.case_cong)

lemma count_call_whitelist:
  "count_call cb lc key (st\<lparr>whitelist_match := w\<rparr>) =
     (count_call cb lc key st)\<lparr>whitelist_match := w\<rparr>"
  by (simp add: count_call_def Let_def record_observation_def whitelist_commutes)

lemma enter_exit_whitelist:
  "perf_enter cb lc (st\<lparr>whitelist_match := w\<rparr>) = (perf_enter cb lc st)\<lparr>whitelist_match := w\<rparr>"
  "perf_exit cb lc (st\<lparr>whitelist_match := w\<rparr>) = (perf_exit cb lc st)\<lparr>whitelist_match := w\<rparr>"
  "count_enter cb lc (st\<lparr>whitelist_match := w\<rparr>) = (count_enter cb lc st)\<lparr>whitelist_match := w\<rparr>"
  "debug_enter dbg cb lc (st\<lparr>whitelist_match := w\<rparr>) =
     (debug_enter dbg cb lc st)\<lparr>whitelist_match := w\<rparr>"
  "binding_eval_args cb lc c (st\<lparr>whitelist_match := w\<rparr>) = binding_eval_args cb lc c st"
  by (simp_all add: perf_enter_def perf_exit_def count_enter_def debug_enter_def
      binding_eval_args_def get_current_args_def whitelist_commutes count_call_whitelist)

lemma gated_ignores_whitelist:
  assumes "ignores_whitelist inner"
  shows "ignores_whitelist (condition_layer cb lc (debug_layer dbg cb lc inner))"
proof -
  have inner: "inner c (st\<lparr>whitelist_match := w\<rparr>) =
      (fst (inner c st), (snd (inner c st))\<lparr>whitelist_match := w\<rparr>)" for c st w
    using assms unfolding ignores_whitelist_def by blast
  have dbg: "debug_layer dbg cb lc inner c (st\<lparr>whitelist_match := w\<rparr>) =
      (fst (debug_layer dbg cb lc inner c st),
       (snd (debug_layer dbg cb lc inner c st))\<lparr>whitelist_match := w\<rparr>)" for c st w
    by (simp add: debug_layer_run enter_exit_whitelist inner)
  show ?thesis
    unfolding ignores_whitelist_def
    by (auto simp: condition_layer_def check_condition_wrapper_def enter_exit_whitelist
        whitelist_commutes dbg Let_def split: option.splits)
qed

lemma pipeline_ignores_whitelist:
  assumes "ignores_whitelist inner"
  shows "built_pipeline dbg cb lc inner c (st\<lparr>whitelist_match := w\<rparr>) =
     (fst (built_pipeline dbg cb lc inner c st),
      (snd (built_pipeline dbg cb lc inner c st))\<lparr>whitelist_match := w\<rparr>)"
proof -
  let ?g = "condition_layer cb lc (debug_layer dbg cb lc inner)"
  from gated_ignores_whitelist [OF assms, of cb lc dbg]
  have g: "?g c (s\<lparr>whitelist_match := w\<rparr>) = (fst (?g c s), (snd (?g c s))\<lparr>whitelist_match := w\<rparr>)"
    for s
    unfolding ignores_whitelist_def by blast
  show ?thesis
    by (simp add: built_pipeline_run enter_exit_whitelist g)
qed

definition whitelisted_state :: state where
  "whitelisted_state = state0\<lparr>whitelist_match := PStr ''10.0.0.0/8''\<rparr>"

text \<open>
  C7, as the spec states it: when the storage reports a whitelist match, invoking a phase
  through its effective handler never calls \<^verbatim>\<open>record_attack\<close>. It fails for a callback
  whose \<^verbatim>\<open>pre\<close> logic calls \<^verbatim>\<open>record_attack\<close>: with a whitelist match in the storage the
  handler runs the logic, and \<^verbatim>\<open>storage.observe\<close> receives the attack.
\<close>

theorem whitelisted_attack_counterexample:
  "truthy (whitelisted (fst (RuleCallback_init 0 attack_klass None plain_args quiet_state))
       whitelisted_state)
   \<and> map_option (\<lambda>h. map is_attack (observe_calls (snd (h call0 whitelisted_state))))
       (fst (snd (RuleCallback_init 0 attack_klass None plain_args quiet_state)) Pre) =
     Some [True]"
  by (simp add: RuleCallback_init_methods attack_klass_def built_pipeline_def
      perf_layer_def call_count_layer_def condition_layer_def debug_layer_def self_fields
      enabled_runner0 whitelisted_def py_or_def whitelisted_state_def
      attack_handler_def record_attack_def observe_def LOGGER_debug_def
      state0_fields Let_def)

text \<open>
  C7, amended: \<^verbatim>\<open>whitelisted\<close> is truthy exactly when the storage's whitelist match is.
  The effective handlers do not consult it: for a phase whose own logic ignores the
  whitelist, invoking the effective handler with a whitelist match in the storage gives the
  outcome and the state changes it gives without one. \<^verbatim>\<open>record_attack\<close> does not consult
  it either: it hands one attack, tagged with the rule, to \<^verbatim>\<open>storage.observe\<close> whatever
  the match is. Skipping a whitelisted request is left to the caller of the handler.
\<close>

theorem whitelisted_property:
  "truthy (whitelisted cb st) = truthy (whitelist_match st)
   \<and> (RuleCallback_init i k rnr ra sc = (self, tbl, sc') \<and> k_methods k lc = Some f
        \<and> ignores_whitelist (f self) \<longrightarrow>
      (\<exists>h. tbl lc = Some h
         \<and> h c (st\<lparr>whitelist_match := w\<rparr>) =
             (fst (h c st), (snd (h c st))\<lparr>whitelist_match := w\<rparr>)))
   \<and> (\<exists>p. observe_calls (record_attack cb infos ts st) =
            observe_calls st @ [Attacks p (payload_sections cb)]
          \<and> atk_rule_name p = rule_name cb \<and> atk_rulespack_id p = rulespack_id cb)
   \<and> record_attack cb infos ts (st\<lparr>whitelist_match := w\<rparr>) =
       (record_attack cb infos ts st)\<lparr>whitelist_match := w\<rparr>"
proof -
  have a: "truthy (whitelisted cb st) = truthy (whitelist_match st)"
    by (simp add: whitelisted_def py_or_def)
  have b: "\<exists>h. tbl lc = Some h
         \<and> h c (st\<lparr>whitelist_match := w\<rparr>) =
             (fst (h c st), (snd (h c st))\<lparr>whitelist_match := w\<rparr>)"
    if init: "RuleCallback_init i k rnr ra sc = (self, tbl, sc')"
      and f: "k_methods k lc = Some f" and blind: "ignores_whitelist (f self)"
  proof -
    from init have self: "self = fst (RuleCallback_init i k rnr ra sc)"
      and tbl: "tbl = fst (snd (RuleCallback_init i k rnr ra sc))"
      by simp_all
    have "tbl lc = Some (built_pipeline (debug_enabled sc) self lc (f self))"
      unfolding self tbl using f by (simp add: RuleCallback_init_methods)
    with pipeline_ignores_whitelist [OF blind] show ?thesis
      by simp
  qed
  have c: "\<exists>p. observe_calls (record_attack cb infos ts st) =
            observe_calls st @ [Attacks p (payload_sections cb)]
          \<and> atk_rule_name p = rule_name cb \<and> atk_rulespack_id p = rulespack_id cb"
    by (simp add: record_attack_def observe_def LOGGER_debug_def Let_def)
  from a b c record_attack_whitelist show ?thesis
    by blast
qed

theorem whitelisted_property_witness:
  "truthy (whitelisted gate_cb whitelisted_state)
   \<and> map_option
       (\<lambda>h. h call0 whitelisted_state =
             (fst (h call0 state0), (snd (h call0 state0))\<lparr>whitelist_match := PStr ''10.0.0.0/8''\<rparr>))
       (fst (snd (RuleCallback_init 0 attack_klass None plain_args quiet_state)) Pre) = Some True
   \<and> map is_attack (observe_calls (record_attack gate_cb PNone None whitelisted_state)) = [True]"
proof -
  have m: "k_methods attack_klass Pre = Some attack_handler"
    by (simp add: attack_klass_def)
  have blind: "ignores_whitelist (attack_handler cb)" for cb
    by (simp add: ignores_whitelist_def attack_handler_def record_attack_whitelist)
  have wl: "truthy (whitelist_match whitelisted_state)"
    "observe_calls whitelisted_state = []"
    by (simp_all add: whitelisted_state_def state0_def)
  note t1 = whitelisted_property [of gate_cb whitelisted_state 0 attack_klass None plain_args
      quiet_state "fst (RuleCallback_init 0 attack_klass None plain_args quiet_state)"
      "fst (snd (RuleCallback_init 0 attack_klass None plain_args quiet_state))"
      "snd (snd (RuleCallback_init 0 attack_klass None plain_args quiet_state))"
      Pre attack_handler call0 "PStr ''10.0.0.0/8''" PNone None]
  note t2 = whitelisted_property [of gate_cb state0 0 attack_klass None plain_args
      quiet_state "fst (RuleCallback_init 0 attack_klass None plain_args quiet_state)"
      "fst (snd (RuleCallback_init 0 attack_klass None plain_args quiet_state))"
      "snd (snd (RuleCallback_init 0 attack_klass None plain_args quiet_state))"
      Pre attack_handler call0 "PStr ''10.0.0.0/8''" PNone None]
  from t1 wl have a: "truthy (whitelisted gate_cb whitelisted_state)"
    and c: "map is_attack (observe_calls (record_attack gate_cb PNone None whitelisted_state))
      = [True]"
    by auto
  from t2 m blind have b: "map_option
       (\<lambda>h. h call0 whitelisted_state =
             (fst (h call0 state0), (snd (h call0 state0))\<lparr>whitelist_match := PStr ''10.0.0.0/8''\<rparr>))
       (fst (snd (RuleCallback_init 0 attack_klass None plain_args quiet_state)) Pre) = Some True"
    by (auto simp: whitelisted_state_def)
  from a b c show ?thesis by simp
qed

section \<open>Recording an exception\<close>

definition formatters0 :: remote_exception where
  "formatters0 =
     \<lparr> raw_traceback_formatter = (\<lambda>tb. case tb of ONone \<Rightarrow> Inr [] | OObject _ _ fs \<Rightarrow> Inr fs),
       traceback_formatter = (\<lambda>frames. Inr frames) \<rparr>"

definition exc_info0 :: "obj list" where
  "exc_info0 =
     [OObject (Some ''ValueError'') (Inr ''ValueError'') [],
      OObject None (Inr ''boom'') [],
      OObject None (Inr ''traceback'') [''frame'']]"

text \<open>
  C8, as the spec states it: \<^verbatim>\<open>record_exception\<close> never raises, for every input. It fails
  for \<^verbatim>\<open>exc_info = (None, None, None)\<close>, the value of \<^verbatim>\<open>sys.exc_info()\<close> when no exception
  is being handled: \<^verbatim>\<open>exc_info[0].__name__\<close> is outside the \<^verbatim>\<open>try\<close> and raises
  \<^verbatim>\<open>AttributeError\<close>. It also fails when \<^verbatim>\<open>exception_infos()\<close> raises an exception that
  does not derive from \<^verbatim>\<open>Exception\<close>, which \<^verbatim>\<open>except Exception\<close> lets through.
\<close>

theorem record_exception_raises_counterexample:
  "record_exception formatters0 gate_cb NoSuchAttribute [ONone, ONone, ONone] None PNone None
       state0 = Inl AttributeError
   \<and> record_exception formatters0 gate_cb (CallRaises KeyboardInterrupt) exc_info0 None PNone
       None state0 = Inl KeyboardInterrupt"
  by (simp add: record_exception_def update_from_exception_def index_def formatters0_def
      exc_info0_def Let_def)

text \<open>
  C8, amended: \<^verbatim>\<open>record_exception\<close> does not raise when \<^verbatim>\<open>exc_info\<close> is a triple whose
  first entry has a \<^verbatim>\<open>__name__\<close>, whose second entry \<^verbatim>\<open>str()\<close> renders and whose
  traceback the formatter accepts, as it accepts the stack when one is given, and when
  \<^verbatim>\<open>exception_infos()\<close>, if it raises, raises a subclass of \<^verbatim>\<open>Exception\<close>. In particular
  it does not raise when the lookup of \<^verbatim>\<open>exception_infos\<close> or its call fails so, nor when
  the stack is omitted: the failure is ignored, the infos stay as given (empty when
  omitted), and one exception event tagged with the rule name and the rulespack id is
  handed to \<^verbatim>\<open>storage.observe\<close>.
\<close>

theorem record_exception_guarded:
  assumes "exc_info = [cls, val, tb]"
    and "dunder_name cls = Inr klass_name"
    and "py_str val = Inr message"
    and "raw_traceback_formatter m tb = Inr bt"
    and "(case stack of None \<Rightarrow> Inr [] | Some frames \<Rightarrow> traceback_formatter m frames) = Inr prefix"
    and "case exc of CallRaises e \<Rightarrow> is_Exception e | _ \<Rightarrow> True"
  shows "\<exists>p. record_exception m cb exc exc_info stack infos ts st =
            Inr (observe (SqreenExceptions p (payload_sections cb))
                   (LOGGER_debug LogObservedException st))
         \<and> exc_rule_name p = rule_name cb
         \<and> exc_rulespack_id p = rulespack_id cb
         \<and> exc_klass p = klass_name
         \<and> exc_message p = message
         \<and> exc_backtrace p = prefix @ bt
         \<and> (exc = NoSuchAttribute \<or> (\<exists>e. exc = CallRaises e) \<longrightarrow>
              exc_infos p = (if infos = PNone then PDict [] else infos))"
proof -
  let ?infos1 = "if infos = PNone then PDict [] else infos"
  have caught: "is_Exception e" if "update_from_exception ?infos1 exc = Inl e" for e
  proof (cases exc)
    case NoSuchAttribute
    with that show ?thesis by (auto simp: update_from_exception_def)
  next
    case (CallRaises e')
    with that assms(6) show ?thesis by (auto simp: update_from_exception_def)
  next
    case (CallReturns v)
    with that have "dict_update ?infos1 v = Inl e"
      by (simp add: update_from_exception_def)
    then show ?thesis
      by (cases "(?infos1, v)" rule: dict_update.cases) (auto split: if_splits)
  qed
  obtain infos2 where tried: "(case update_from_exception ?infos1 exc of
                 Inr updated \<Rightarrow> Inr updated
               | Inl e \<Rightarrow> if is_Exception e then Inr ?infos1 else Inl e) = Inr infos2"
    and kept: "exc = NoSuchAttribute \<or> (\<exists>e. exc = CallRaises e) \<longrightarrow> infos2 = ?infos1"
    using caught
    by (cases "update_from_exception ?infos1 exc")
      (auto simp: update_from_exception_def split: infos_lookup.splits)
  have idx: "index exc_info 0 = Inr cls" "index exc_info (Suc 0) = Inr val"
    "index exc_info 2 = Inr tb"
    by (simp_all add: index_def assms(1))
  have bt': "(case stack of
                 None \<Rightarrow> Inr bt
               | Some frames \<Rightarrow>
                   (case traceback_formatter m frames of
                      Inl e \<Rightarrow> Inl e
                    | Inr formatted \<Rightarrow> Inr (formatted @ bt))) = Inr (prefix @ bt)"
    using assms(5) by (cases stack) auto
  let ?p = "\<lparr> exc_message = message, exc_klass = klass_name, exc_infos = infos2,
              exc_rule_name = rule_name cb, exc_rulespack_id = rulespack_id cb,
              exc_test = test cb,
              exc_time = (case ts of None \<Rightarrow> now st | Some t \<Rightarrow> t),
              exc_backtrace = prefix @ bt \<rparr>"
  have run: "record_exception m cb exc exc_info stack infos ts st =
      Inr (observe (SqreenExceptions ?p (payload_sections cb))
             (LOGGER_debug LogObservedException st))"
    by (simp add: record_exception_def Let_def tried idx bt' assms(2,3,4))
  show ?thesis
    by (rule exI [of _ ?p]) (use run kept in simp)
qed

theorem record_exception_guarded_witness:
  "(case record_exception formatters0 gate_cb NoSuchAttribute exc_info0 None PNone None state0 of
      Inl e \<Rightarrow> []
    | Inr st' \<Rightarrow> map (\<lambda>ev. case ev of SqreenExceptions p secs \<Rightarrow>
                                (exc_rule_name p, exc_rulespack_id p, exc_infos p, exc_backtrace p)
                              | _ \<Rightarrow> ([], [], PNone, [])) (observe_calls st'))
     = [(''rule'', ''pack'', PDict [], [''frame''])]
   \<and> (case record_exception formatters0 gate_cb (CallRaises TypeError) exc_info0 None PNone None
            state0 of
      Inl e \<Rightarrow> 0 | Inr st' \<Rightarrow> length (observe_calls st')) = 1"
proof -
  have facts: "rule_name gate_cb = ''rule''" "rulespack_id gate_cb = ''pack''"
    "observe_calls state0 = []"
    by (simp_all add: gate_cb_def base0_def BaseCallback_init_def state0_def)
  have ei: "exc_info0 = [OObject (Some ''ValueError'') (Inr ''ValueError'') [],
      OObject None (Inr ''boom'') [], OObject None (Inr ''traceback'') [''frame'']]"
    by (simp add: exc_info0_def)
  have n: "dunder_name (OObject (Some ''ValueError'') (Inr ''ValueError'') []) = Inr ''ValueError''"
    and s: "py_str (OObject None (Inr ''boom'') []) = Inr ''boom''"
    and f: "raw_traceback_formatter formatters0 (OObject None (Inr ''traceback'') [''frame''])
      = Inr [''frame'']"
    and st: "(case None of None \<Rightarrow> Inr [] | Some frames \<Rightarrow> traceback_formatter formatters0 frames)
      = Inr []"
    by (simp_all add: formatters0_def)
  have e1: "case NoSuchAttribute of CallRaises e \<Rightarrow> is_Exception e | _ \<Rightarrow> True"
    and e2: "case CallRaises TypeError of CallRaises e \<Rightarrow> is_Exception e | _ \<Rightarrow> True"
    by simp_all
  obtain p where p: "record_exception formatters0 gate_cb NoSuchAttribute exc_info0 None PNone
        None state0 =
      Inr (observe (SqreenExceptions p (payload_sections gate_cb))
             (LOGGER_debug LogObservedException state0))"
    "exc_rule_name p = rule_name gate_cb" "exc_rulespack_id p = rulespack_id gate_cb"
    "exc_backtrace p = [] @ [''frame'']" "exc_infos p = PDict []"
    using record_exception_guarded [OF ei n s f st e1, of gate_cb PNone None state0]
    by auto
  obtain q where q: "record_exception formatters0 gate_cb (CallRaises TypeError) exc_info0 None
        PNone None state0 =
      Inr (observe (SqreenExceptions q (payload_sections gate_cb))
             (LOGGER_debug LogObservedException state0))"
    using record_exception_guarded [OF ei n s f st e2, of gate_cb PNone None state0]
    by auto
  from p q facts show ?thesis
    by (simp add: observe_def LOGGER_debug_def)
qed

section \<open>The AWS Lambda request-context callback\<close>

text \<open>
  \<^verbatim>\<open>RecordRequestContextAWSLambda.pre\<close> of \<^verbatim>\<open>aws_lambda.py\<close>. The event is the first
  positional argument, a dictionary; \<^verbatim>\<open>frozenset(event.keys())\<close> is its set of keys. The
  method \<^verbatim>\<open>_store_request\<close> of the parent class is not part of the sources and is a
  parameter. An empty argument tuple gives \<^verbatim>\<open>IndexError\<close>, an event without \<^verbatim>\<open>get\<close>
  gives \<^verbatim>\<open>AttributeError\<close>.
\<close>

datatype lambda_request =
    AWSLambdaProxyV2Request "(string \<times> pyval) list"
  | AWSLambdaProxyV1Request "(string \<times> pyval) list"

definition dict_get :: "(string \<times> pyval) list \<Rightarrow> string \<Rightarrow> pyval" where
  "dict_get d k = (case map_of d k of None \<Rightarrow> PNone | Some v \<Rightarrow> v)"

definition event_type :: "(string \<times> pyval) list \<Rightarrow> string set" where
  "event_type event = fst ` set event"

definition RecordRequestContextAWSLambda_pre ::
  "(lambda_request \<Rightarrow> state \<Rightarrow> state) \<Rightarrow> callback \<Rightarrow> handler" where
  "RecordRequestContextAWSLambda_pre store_request self = (\<lambda>c st.
     case args c of
       [] \<Rightarrow> (Inl IndexError, st)
     | PDict event # _ \<Rightarrow>
         (let version = dict_get event ''version'' in
          if version = PStr ''2.0'' then
            (Inr PNone, store_request (AWSLambdaProxyV2Request event) st)
          else if version = PStr ''1.0'' \<or> ''httpMethod'' \<in> fst ` set event then
            (Inr PNone, store_request (AWSLambdaProxyV1Request event) st)
          else
            if event_type event \<notin> UNSUPPORTED_LAMBDA_EVENTS st then
              (Inl (UnsupportedAWSLambdaEvent event),
               st\<lparr>UNSUPPORTED_LAMBDA_EVENTS :=
                    insert (event_type event) (UNSUPPORTED_LAMBDA_EVENTS st)\<rparr>)
            else (Inr PNone, st))
     | _ # _ \<Rightarrow> (Inl AttributeError, st))"

text \<open>
  An event is unsupported when it is neither a version 2.0 nor a version 1.0 event and has
  no \<^verbatim>\<open>httpMethod\<close> key. \<open>invoke_all\<close> collects the outcomes of successive invocations;
  \<open>raises_for\<close> counts the \<^verbatim>\<open>UnsupportedAWSLambdaEvent\<close> errors among them whose event
  has the given shape. \<open>keeps_seen\<close> says that storing a request leaves the set of seen
  shapes alone.
\<close>

definition unsupported :: "(string \<times> pyval) list \<Rightarrow> bool" where
  "unsupported event =
     (dict_get event ''version'' \<noteq> PStr ''2.0'' \<and> dict_get event ''version'' \<noteq> PStr ''1.0''
      \<and> ''httpMethod'' \<notin> fst ` set event)"

definition lambda_call :: "(string \<times> pyval) list \<Rightarrow> call" where
  "lambda_call event =
     \<lparr> inst = PNone, args = [PDict event, PNone], kwargs = Map.empty, options = Map.empty \<rparr>"

fun invoke_all :: "handler \<Rightarrow> call list \<Rightarrow> state \<Rightarrow> (exn + pyval) list \<times> state" where
  "invoke_all h [] st = ([], st)"
| "invoke_all h (c # cs) st =
     (case h c st of (r, st1) \<Rightarrow>
        (case invoke_all h cs st1 of (rs, st2) \<Rightarrow> (r # rs, st2)))"

fun raised_shape :: "exn + pyval \<Rightarrow> string set option" where
  "raised_shape (Inl (UnsupportedAWSLambdaEvent event)) = Some (event_type event)"
| "raised_shape _ = None"

definition raises_for :: "string set \<Rightarrow> (exn + pyval) list \<Rightarrow> nat" where
  "raises_for s rs = length (filter (\<lambda>r. raised_shape r = Some s) rs)"

definition keeps_seen :: "(lambda_request \<Rightarrow> state \<Rightarrow> state) \<Rightarrow> bool" where
  "keeps_seen store_request =
     (\<forall>r st. UNSUPPORTED_LAMBDA_EVENTS (store_request r st) = UNSUPPORTED_LAMBDA_EVENTS st)"

lemma pre_unseen:
  "unsupported event \<Longrightarrow> args c = PDict event # rest
   \<Longrightarrow> event_type event \<notin> UNSUPPORTED_LAMBDA_EVENTS st
   \<Longrightarrow> RecordRequestContextAWSLambda_pre sr self c st =
       (Inl (UnsupportedAWSLambdaEvent event),
        st\<lparr>UNSUPPORTED_LAMBDA_EVENTS := insert (event_type event) (UNSUPPORTED_LAMBDA_EVENTS st)\<rparr>)"
  by (simp add: RecordRequestContextAWSLambda_pre_def unsupported_def Let_def)

lemma pre_seen:
  "unsupported event \<Longrightarrow> args c = PDict event # rest
   \<Longrightarrow> event_type event \<in> UNSUPPORTED_LAMBDA_EVENTS st
   \<Longrightarrow> RecordRequestContextAWSLambda_pre sr self c st = (Inr PNone, st)"
  by (simp add: RecordRequestContextAWSLambda_pre_def unsupported_def Let_def)

lemma pre_supported:
  "\<not> unsupported event \<Longrightarrow> args c = PDict event # rest \<Longrightarrow> keeps_seen sr
   \<Longrightarrow> fst (RecordRequestContextAWSLambda_pre sr self c st) = Inr PNone
     \<and> UNSUPPORTED_LAMBDA_EVENTS (snd (RecordRequestContextAWSLambda_pre sr self c st)) =
         UNSUPPORTED_LAMBDA_EVENTS st"
  by (auto simp: RecordRequestContextAWSLambda_pre_def unsupported_def Let_def keeps_seen_def)

lemma raises_for_Cons:
  "raises_for s (r # rs) = (if raised_shape r = Some s then 1 else 0) + raises_for s rs"
  by (simp add: raises_for_def)

lemma invoke_all_Cons:
  "fst (invoke_all h (c # cs) st) = fst (h c st) # fst (invoke_all h cs (snd (h c st)))"
  by (simp split: prod.splits)

lemma raises_for_sequence:
  assumes keep: "keeps_seen sr"
  shows "raises_for s (fst (invoke_all (RecordRequestContextAWSLambda_pre sr self)
             (map lambda_call evs) st)) =
         (if s \<notin> UNSUPPORTED_LAMBDA_EVENTS st
             \<and> s \<in> event_type ` {ev \<in> set evs. unsupported ev} then 1 else 0)"
proof (induction evs arbitrary: st)
  case Nil
  then show ?case by (simp add: raises_for_def)
next
  case (Cons ev evs)
  let ?pre = "RecordRequestContextAWSLambda_pre sr self"
  have a: "args (lambda_call ev) = PDict ev # [PNone]"
    by (simp add: lambda_call_def)
  show ?case
  proof (cases "unsupported ev")
    case False
    from pre_supported [OF False a keep] show ?thesis
      using False Cons.IH [of "snd (?pre (lambda_call ev) st)"]
      by (auto simp: invoke_all_Cons raises_for_Cons simp del: invoke_all.simps)
  next
    case True
    show ?thesis
    proof (cases "event_type ev \<in> UNSUPPORTED_LAMBDA_EVENTS st")
      case seen: True
      from pre_seen [OF True a seen] show ?thesis
        using True seen Cons.IH [of st]
        by (auto simp: invoke_all_Cons raises_for_Cons simp del: invoke_all.simps)
    next
      case unseen: False
      from pre_unseen [OF True a unseen] show ?thesis
        using True unseen
          Cons.IH [of "st\<lparr>UNSUPPORTED_LAMBDA_EVENTS :=
            insert (event_type ev) (UNSUPPORTED_LAMBDA_EVENTS st)\<rparr>"]
        by (auto simp: invoke_all_Cons raises_for_Cons simp del: invoke_all.simps)
    qed
  qed
qed

text \<open>
  C9: a \<^verbatim>\<open>pre\<close> invocation with an unsupported event whose shape, the set of its top-level
  keys, has not been seen raises \<^verbatim>\<open>UnsupportedAWSLambdaEvent\<close> with the event and
  records the shape; with a shape already seen it returns \<^verbatim>\<open>None\<close> and changes nothing.
  Over any sequence of invocations starting with no shape seen, the error is raised exactly
  once for each shape of an unsupported event in the sequence, and never for another shape.
\<close>

theorem unsupported_event_once:
  "(unsupported event \<and> args c = PDict event # rest
      \<and> event_type event \<notin> UNSUPPORTED_LAMBDA_EVENTS st \<longrightarrow>
      RecordRequestContextAWSLambda_pre sr self c st =
        (Inl (UnsupportedAWSLambdaEvent event),
         st\<lparr>UNSUPPORTED_LAMBDA_EVENTS :=
              insert (event_type event) (UNSUPPORTED_LAMBDA_EVENTS st)\<rparr>))
   \<and> (unsupported event \<and> args c = PDict event # rest
      \<and> event_type event \<in> UNSUPPORTED_LAMBDA_EVENTS st \<longrightarrow>
      RecordRequestContextAWSLambda_pre sr self c st = (Inr PNone, st))
   \<and> (keeps_seen sr \<and> UNSUPPORTED_LAMBDA_EVENTS st = {} \<longrightarrow>
      raises_for s (fst (invoke_all (RecordRequestContextAWSLambda_pre sr self)
                          (map lambda_call evs) st)) =
        (if s \<in> event_type ` {ev \<in> set evs. unsupported ev} then 1 else 0))"
proof (intro conjI impI)
  assume "unsupported event \<and> args c = PDict event # rest
      \<and> event_type event \<notin> UNSUPPORTED_LAMBDA_EVENTS st"
  then show "RecordRequestContextAWSLambda_pre sr self c st =
        (Inl (UnsupportedAWSLambdaEvent event),
         st\<lparr>UNSUPPORTED_LAMBDA_EVENTS :=
              insert (event_type event) (UNSUPPORTED_LAMBDA_EVENTS st)\<rparr>)"
    using pre_unseen by blast
next
  assume "unsupported event \<and> args c = PDict event # rest
      \<and> event_type event \<in> UNSUPPORTED_LAMBDA_EVENTS st"
  then show "RecordRequestContextAWSLambda_pre sr self c st = (Inr PNone, st)"
    using pre_seen by blast
next
  assume a: "keeps_seen sr \<and> UNSUPPORTED_LAMBDA_EVENTS st = {}"
  then have "keeps_seen sr" by simp
  from raises_for_sequence [OF this, of s self evs st] a
  show "raises_for s (fst (invoke_all (RecordRequestContextAWSLambda_pre sr self)
                          (map lambda_call evs) st)) =
        (if s \<in> event_type ` {ev \<in> set evs. unsupported ev} then 1 else 0)"
    by simp
qed

definition records_event :: "(string \<times> pyval) list" where
  "records_event = [(''Records'', PList [])]"

definition records_event2 :: "(string \<times> pyval) list" where
  "records_event2 = [(''Records'', PList [PInt 1])]"

definition v2_event :: "(string \<times> pyval) list" where
  "v2_event = [(''version'', PStr ''2.0'')]"

definition store_request0 :: "lambda_request \<Rightarrow> state \<Rightarrow> state" where
  "store_request0 r st =
     st\<lparr>current_request :=
          Some \<lparr> raw_caller = [],
                 request_payload = (case r of AWSLambdaProxyV2Request e \<Rightarrow> PDict e
                                    | AWSLambdaProxyV1Request e \<Rightarrow> PDict e) \<rparr>\<rparr>"

theorem unsupported_event_once_witness:
  "fst (RecordRequestContextAWSLambda_pre store_request0 gate_cb (lambda_call records_event)
         state0) = Inl (UnsupportedAWSLambdaEvent records_event)
   \<and> fst (RecordRequestContextAWSLambda_pre store_request0 gate_cb (lambda_call records_event2)
         (snd (RecordRequestContextAWSLambda_pre store_request0 gate_cb
                 (lambda_call records_event) state0))) = Inr PNone
   \<and> raises_for {''Records''}
       (fst (invoke_all (RecordRequestContextAWSLambda_pre store_request0 gate_cb)
              (map lambda_call [records_event, v2_event, records_event2, records_event])
              state0)) = 1"
proof -
  let ?pre = "RecordRequestContextAWSLambda_pre store_request0 gate_cb"
  let ?seen = "state0\<lparr>UNSUPPORTED_LAMBDA_EVENTS :=
      insert (event_type records_event) (UNSUPPORTED_LAMBDA_EVENTS state0)\<rparr>"
  have u: "unsupported records_event" "unsupported records_event2"
    by (simp_all add: unsupported_def dict_get_def records_event_def records_event2_def)
  have shape: "event_type records_event = {''Records''}"
    "event_type records_event2 = {''Records''}"
    by (simp_all add: event_type_def records_event_def records_event2_def)
  have empty: "UNSUPPORTED_LAMBDA_EVENTS state0 = {}"
    by (simp add: state0_def)
  have arg: "args (lambda_call e) = PDict e # [PNone]" for e
    by (simp add: lambda_call_def)
  have keep: "keeps_seen store_request0"
    by (simp add: keeps_seen_def store_request0_def)
  note t1 = unsupported_event_once [of records_event "lambda_call records_event" "[PNone]"
      state0 store_request0 gate_cb "{''Records''}"
      "[records_event, v2_event, records_event2, records_event]"]
  note t2 = unsupported_event_once [of records_event2 "lambda_call records_event2" "[PNone]"
      ?seen store_request0 gate_cb "{''Records''}" "[]"]
  from t1 u shape empty arg have first: "?pre (lambda_call records_event) state0 =
      (Inl (UnsupportedAWSLambdaEvent records_event), ?seen)"
    by simp
  from t2 u shape arg have second: "?pre (lambda_call records_event2) ?seen = (Inr PNone, ?seen)"
    by simp
  have member: "{''Records''} \<in> event_type `
      {ev \<in> set [records_event, v2_event, records_event2, records_event]. unsupported ev}"
    using u shape by auto
  from t1 keep empty member have third: "raises_for {''Records''}
       (fst (invoke_all ?pre
              (map lambda_call [records_event, v2_event, records_event2, records_event])
              state0)) = 1"
    by (simp del: invoke_all.simps list.map)
  from first second third show ?thesis
    by (simp del: invoke_all.simps list.map)
qed

end
